theory Spec2Isabelle
  imports Complex_Main "HOL-Library.Sublist"
begin

section \<open>JavaScript values\<close>

text \<open>
  The services compute with ratings, versions, identifiers and page sizes: every number
  they handle is integral or \<open>NaN\<close>, and it is kept exactly (no rounding to 64-bit floats).
  Strings are lists of 8-bit characters.
\<close>

datatype jsnumber = NaN | Num int

datatype jsval = JUndefined | JString string | JNumber jsnumber | JBoolean bool

definition isWhiteSpace :: "char \<Rightarrow> bool" where
  "isWhiteSpace c = (c \<in> set [CHR 0x09, CHR 0x0A, CHR 0x0B, CHR 0x0C, CHR 0x0D, CHR 0x20, CHR 0xA0])"

definition digitValue :: "char \<Rightarrow> nat option" where
  \<comment> \<open>the value of a character as a digit: 0-9, then a-z and A-Z as 10..35\<close>
  "digitValue c =
     (let n = of_char c :: nat in
      if 48 \<le> n \<and> n \<le> 57 then Some (n - 48)
      else if 97 \<le> n \<and> n \<le> 122 then Some (n - 87)
      else if 65 \<le> n \<and> n \<le> 90 then Some (n - 55)
      else None)"

definition isDecimalDigit :: "char \<Rightarrow> bool" where
  "isDecimalDigit c = (48 \<le> (of_char c :: nat) \<and> (of_char c :: nat) \<le> 57)"

definition decimalValue :: "string \<Rightarrow> int" where
  \<comment> \<open>the number that a text of decimal digits writes\<close>
  "decimalValue ds = foldl (\<lambda>acc c. acc * 10 + (int (of_char c) - 48)) 0 ds"

definition isRadixDigit :: "nat \<Rightarrow> char \<Rightarrow> bool" where
  "isRadixDigit R c = (case digitValue c of None \<Rightarrow> False | Some d \<Rightarrow> d < R)"

definition radixValue :: "nat \<Rightarrow> string \<Rightarrow> int" where
  "radixValue R ds =
     foldl (\<lambda>acc c. acc * int R + int (case digitValue c of None \<Rightarrow> 0 | Some d \<Rightarrow> d)) 0 ds"

definition stripHexPrefix :: "string \<Rightarrow> string option" where
  "stripHexPrefix s =
     (case s of
        z # x # rest \<Rightarrow> if z = CHR ''0'' \<and> (x = CHR ''x'' \<or> x = CHR ''X'') then Some rest else None
      | _ \<Rightarrow> None)"

definition parseInt :: "string \<Rightarrow> nat option \<Rightarrow> jsnumber" where
  \<comment> \<open>\<open>parseInt(string, radix)\<close>; \<open>None\<close> is a call without radix\<close>
  "parseInt str radix =
     (let s = dropWhile isWhiteSpace str;
          neg = (s \<noteq> [] \<and> hd s = CHR ''-'');
          s1 = (if s \<noteq> [] \<and> (hd s = CHR ''+'' \<or> hd s = CHR ''-'') then tl s else s);
          R0 = (case radix of None \<Rightarrow> 10 | Some r \<Rightarrow> if r = 0 then 10 else r);
          hex = ((radix = None \<or> radix = Some 0 \<or> radix = Some 16) \<and> stripHexPrefix s1 \<noteq> None);
          R = (if hex then 16 else R0);
          s2 = (if hex then (case stripHexPrefix s1 of None \<Rightarrow> s1 | Some r \<Rightarrow> r) else s1);
          ds = takeWhile (isRadixDigit R) s2
      in if R < 2 \<or> 36 < R then NaN
         else if ds = [] then NaN
         else Num ((if neg then - 1 else 1) * radixValue R ds))"

definition slice :: "string \<Rightarrow> int \<Rightarrow> int \<Rightarrow> string" where
  \<comment> \<open>\<open>str.slice(start, end)\<close>: a negative index counts from the end\<close>
  "slice s start stop =
     (let len = int (length s);
          i = (if start < 0 then max (len + start) 0 else min start len);
          j = (if stop < 0 then max (len + stop) 0 else min stop len)
      in take (nat (j - i)) (drop (nat i) s))"

section \<open>Search criteria and page descriptor\<close>

text \<open>
  A criteria object is a flat object: its own properties in insertion order. The
  declared type gives every property a string, a number or a boolean.
\<close>

type_synonym Suchkriterien = "(string \<times> jsval) list"

definition getProp :: "Suchkriterien \<Rightarrow> string \<Rightarrow> jsval" where
  \<comment> \<open>property access: a missing property reads \<open>undefined\<close>\<close>
  "getProp obj k = (case map_of obj k of None \<Rightarrow> JUndefined | Some v \<Rightarrow> v)"

definition destructured :: "string list" where
  "destructured = [''name'', ''rating'', ''preis'', ''javascript'', ''typescript'', ''java'', ''python'']"

definition restProps :: "Suchkriterien \<Rightarrow> Suchkriterien" where
  \<comment> \<open>the rest properties of the destructuring in \<open>build\<close>\<close>
  "restProps obj = filter (\<lambda>kv. fst kv \<notin> set destructured) obj"

record Pageable =
  number :: "int option"
  size_p :: "int option"

record config =
  postgres :: bool  \<comment> \<open>\<open>typeOrmModuleOptions.type === 'postgres'\<close>\<close>
  DEFAULT_PAGE_SIZE :: int
  DEFAULT_PAGE_NUMBER :: int

section \<open>The ORM's select query builder\<close>

text \<open>
  The query builder is the ORM's, a library outside the repository. Of its state, the
  joins, the WHERE conditions, the limit and the offset are kept. As the library
  documents, \<open>where\<close> sets the WHERE expression and overrides every condition set
  before, while \<open>andWhere\<close> adds a condition to the ones that are set.

  A condition is one of the SQL fragments that \<open>build\<close> writes, with the value it
  interpolates or binds as parameter. \<open>PreisLe p\<close> stands for
  \<open>spiel.preis <= Number(p)\<close>: the number JavaScript reads from the text \<open>p\<close> is
  not interpreted here.
\<close>

datatype condition =
    NameLike bool string  \<comment> \<open>\<open>name.name ilike :name\<close> (\<open>True\<close>) or \<open>like\<close>, and the parameter\<close>
  | RatingGe jsval  \<comment> \<open>\<open>spiel.rating >= ${ratingNumber}\<close>\<close>
  | PreisLe string  \<comment> \<open>\<open>spiel.preis <= ${preisNumber}\<close>\<close>
  | SchlagwoerterLike string  \<comment> \<open>\<open>spiel.schlagwoerter like '...'\<close>\<close>
  | SchlagwoerterReplaceLike string string string
      \<comment> \<open>\<open>REPLACE(spiel.schlagwoerter, from, to) like '...'\<close>\<close>
  | PropEquals string jsval  \<comment> \<open>\<open>spiel.${key} = :${key}\<close> and the parameter\<close>
  | IdEquals int  \<comment> \<open>\<open>spiel.id = :id\<close>\<close>

datatype where_type = simple | and_where

datatype join = InnerJoinAndSelect string string | LeftJoinAndSelect string string

record SelectQueryBuilder =
  mainAlias :: string
  joins :: "join list"
  wheres :: "(where_type \<times> condition) list"
  take_qb :: "int option"
  skip_qb :: "int option"

definition createQueryBuilder :: "string \<Rightarrow> SelectQueryBuilder" where
  "createQueryBuilder a = \<lparr>mainAlias = a, joins = [], wheres = [], take_qb = None, skip_qb = None\<rparr>"

definition innerJoinAndSelect :: "string \<Rightarrow> string \<Rightarrow> SelectQueryBuilder \<Rightarrow> SelectQueryBuilder" where
  "innerJoinAndSelect p a q = q\<lparr>joins := joins q @ [InnerJoinAndSelect p a]\<rparr>"

definition leftJoinAndSelect :: "string \<Rightarrow> string \<Rightarrow> SelectQueryBuilder \<Rightarrow> SelectQueryBuilder" where
  "leftJoinAndSelect p a q = q\<lparr>joins := joins q @ [LeftJoinAndSelect p a]\<rparr>"

definition where_qb :: "condition \<Rightarrow> SelectQueryBuilder \<Rightarrow> SelectQueryBuilder" where
  \<comment> \<open>\<open>where\<close> sets the WHERE expression: conditions set before are dropped\<close>
  "where_qb c q = q\<lparr>wheres := [(simple, c)]\<rparr>"

definition andWhere :: "condition \<Rightarrow> SelectQueryBuilder \<Rightarrow> SelectQueryBuilder" where
  \<comment> \<open>\<open>andWhere\<close> adds a condition to the ones already set\<close>
  "andWhere c q = q\<lparr>wheres := wheres q @ [(and_where, c)]\<rparr>"

definition take_rows :: "int \<Rightarrow> SelectQueryBuilder \<Rightarrow> SelectQueryBuilder" where
  "take_rows n q = q\<lparr>take_qb := Some n\<rparr>"

definition skip_rows :: "int \<Rightarrow> SelectQueryBuilder \<Rightarrow> SelectQueryBuilder" where
  "skip_rows n q = q\<lparr>skip_qb := Some n\<rparr>"

definition conditions :: "SelectQueryBuilder \<Rightarrow> condition list" where
  \<comment> \<open>the WHERE clause is the conjunction of these\<close>
  "conditions q = map snd (wheres q)"

section \<open>QueryBuilder.build\<close>

type_synonym build_state = "SelectQueryBuilder \<times> bool"

definition whereOrAnd :: "condition \<Rightarrow> build_state \<Rightarrow> build_state" where
  \<comment> \<open>\<open>queryBuilder = useWhere ? queryBuilder.where(c) : queryBuilder.andWhere(c); useWhere = false\<close>\<close>
  "whereOrAnd c st = ((if snd st then where_qb c (fst st) else andWhere c (fst st)), False)"

definition build_name :: "config \<Rightarrow> jsval \<Rightarrow> build_state \<Rightarrow> build_state" where
  "build_name cfg nameVal st =
     (case nameVal of
        JString n \<Rightarrow> (where_qb (NameLike (postgres cfg) (''%'' @ n @ ''%'')) (fst st), False)
      | _ \<Rightarrow> st)"

definition build_rating :: "jsval \<Rightarrow> build_state \<Rightarrow> build_state" where
  \<comment> \<open>\<open>isNaN\<close> is true of \<open>NaN\<close> only: a boolean converts to 1 or 0\<close>
  "build_rating ratingVal st =
     (case ratingVal of
        JUndefined \<Rightarrow> st
      | JString s \<Rightarrow>
          (case parseInt s None of
             NaN \<Rightarrow> st
           | Num n \<Rightarrow> (where_qb (RatingGe (JNumber (Num n))) (fst st), False))
      | JNumber NaN \<Rightarrow> st
      | JNumber (Num n) \<Rightarrow> (where_qb (RatingGe (JNumber (Num n))) (fst st), False)
      | JBoolean b \<Rightarrow> (where_qb (RatingGe (JBoolean b)) (fst st), False))"

definition build_preis :: "jsval \<Rightarrow> build_state \<Rightarrow> build_state" where
  "build_preis preisVal st =
     (case preisVal of
        JString p \<Rightarrow> (where_qb (PreisLe p) (fst st), False)
      | _ \<Rightarrow> st)"

definition build_flag :: "jsval \<Rightarrow> condition \<Rightarrow> build_state \<Rightarrow> build_state" where
  "build_flag flag c st = (if flag = JString ''true'' then whereOrAnd c st else st)"

definition javaCondition :: condition where
  "javaCondition = SchlagwoerterReplaceLike ''JAVASCRIPT'' '''' ''%JAVA%''"

definition build_rest :: "Suchkriterien \<Rightarrow> build_state \<Rightarrow> build_state" where
  "build_rest rest st = foldl (\<lambda>st kv. whereOrAnd (PropEquals (fst kv) (snd kv)) st) st rest"

definition build_where :: "config \<Rightarrow> Suchkriterien \<Rightarrow> SelectQueryBuilder" where
  \<comment> \<open>the query builder before paging is applied\<close>
  "build_where cfg such =
     (let st0 = (innerJoinAndSelect ''spiel.name'' ''name'' (createQueryBuilder ''spiel''), True);
          st1 = build_name cfg (getProp such ''name'') st0;
          st2 = build_rating (getProp such ''rating'') st1;
          st3 = build_preis (getProp such ''preis'') st2;
          st4 = build_flag (getProp such ''javascript'') (SchlagwoerterLike ''%JAVASCRIPT%'') st3;
          st5 = build_flag (getProp such ''typescript'') (SchlagwoerterLike ''%TYPESCRIPT%'') st4;
          st6 = build_flag (getProp such ''java'') javaCondition st5;
          st7 = build_flag (getProp such ''python'') (SchlagwoerterLike ''%PYTHON%'') st6;
          st8 = build_rest (restProps such) st7
      in fst st8)"

definition build :: "config \<Rightarrow> Suchkriterien \<Rightarrow> Pageable option \<Rightarrow> SelectQueryBuilder" where
  "build cfg such pageable =
     (let queryBuilder = build_where cfg such;
          psize = (case pageable of None \<Rightarrow> None | Some p \<Rightarrow> size_p p);
          pnumber = (case pageable of None \<Rightarrow> None | Some p \<Rightarrow> number p)
      in if psize = Some 0 then queryBuilder
         else
           let sz = (case psize of None \<Rightarrow> DEFAULT_PAGE_SIZE cfg | Some s \<Rightarrow> s);
               nr = (case pnumber of None \<Rightarrow> DEFAULT_PAGE_NUMBER cfg | Some n \<Rightarrow> n);
               skip = nr * sz
           in skip_rows skip (take_rows sz queryBuilder))"

section \<open>SQL text functions\<close>

text \<open>
  The SQL that \<open>build\<close> writes is evaluated by the database system of the
  configuration. The sources carry the schema of two: PostgreSQL and SQLite. Of the
  configuration, \<open>build\<close> reads only whether the type is \<open>'postgres'\<close>, and
  only for the condition on the name: the keyword conditions are the same text for
  every database system, so the system is a parameter of their evaluation.

  \<open>like\<close> is SQL's LIKE comparing characters exactly: \<open>%\<close> stands for any text
  and \<open>_\<close> for one character. The escape character is left out: the patterns
  evaluated here are the four fixed keyword patterns of \<open>build\<close>. PostgreSQL
  evaluates LIKE this way. SQLite's LIKE ignores the case of the letters A to Z, which
  \<open>likeOf\<close> gets by folding them in the pattern and in the text.
  \<open>replace_all\<close> is SQL's REPLACE, the same in both systems: every occurrence,
  compared exactly, scanning from the left.
\<close>

datatype dbms = PostgreSQL | SQLite

fun like :: "string \<Rightarrow> string \<Rightarrow> bool" where
  "like [] s = (s = [])"
| "like (p # ps) s =
     (if p = CHR ''%'' then like ps s \<or> (case s of [] \<Rightarrow> False | c # r \<Rightarrow> like (p # ps) r)
      else (case s of [] \<Rightarrow> False | c # r \<Rightarrow> (p = CHR ''_'' \<or> p = c) \<and> like ps r))"

function replace_all :: "string \<Rightarrow> string \<Rightarrow> string \<Rightarrow> string" where
  "replace_all old new s =
     (if old = [] then s
      else if s = [] then []
      else if prefix old s then new @ replace_all old new (drop (length old) s)
      else hd s # replace_all old new (tl s))"
  by pat_completeness auto
termination
  by (relation "measure (\<lambda>(old, new, s). length s)") auto

declare replace_all.simps [simp del]

fun joinComma :: "string list \<Rightarrow> string" where
  \<comment> \<open>the text the ORM stores for a \<open>simple-array\<close> column\<close>
  "joinComma [] = []"
| "joinComma [k] = k"
| "joinComma (k # ks) = k @ CHR '','' # joinComma ks"

definition asciiLower :: "char \<Rightarrow> char" where
  "asciiLower c =
     (case map_of (zip ''ABCDEFGHIJKLMNOPQRSTUVWXYZ'' ''abcdefghijklmnopqrstuvwxyz'') c of
        None \<Rightarrow> c
      | Some l \<Rightarrow> l)"

definition likeOf :: "dbms \<Rightarrow> string \<Rightarrow> string \<Rightarrow> bool" where
  \<comment> \<open>\<open>text like pattern\<close> as the database system evaluates it\<close>
  "likeOf d p s =
     (case d of
        PostgreSQL \<Rightarrow> like p s
      | SQLite \<Rightarrow> like (map asciiLower p) (map asciiLower s))"

definition keywordConditionHolds :: "dbms \<Rightarrow> condition \<Rightarrow> string option \<Rightarrow> bool option" where
  \<comment> \<open>a keyword condition on the text of column \<open>schlagwoerter\<close> (\<open>None\<close>: NULL, which
      no LIKE accepts); the result is \<open>None\<close> for the conditions on other columns\<close>
  "keywordConditionHolds d c col =
     (case c of
        SchlagwoerterLike p \<Rightarrow>
          Some (case col of None \<Rightarrow> False | Some t \<Rightarrow> likeOf d p t)
      | SchlagwoerterReplaceLike old new p \<Rightarrow>
          Some (case col of None \<Rightarrow> False | Some t \<Rightarrow> likeOf d p (replace_all old new t))
      | _ \<Rightarrow> None)"

definition isKeywordCondition :: "condition \<Rightarrow> bool" where
  "isKeywordCondition c =
     (case c of
        SchlagwoerterLike p \<Rightarrow> True
      | SchlagwoerterReplaceLike old new p \<Rightarrow> True
      | _ \<Rightarrow> False)"

definition whereHolds :: "dbms \<Rightarrow> SelectQueryBuilder \<Rightarrow> string option \<Rightarrow> bool option" where
  \<comment> \<open>the WHERE clause of a query that has keyword conditions only, on a row with the
      given text in column \<open>schlagwoerter\<close>: the conjunction of the conditions. The
      result is \<open>None\<close> when a condition on another column is among them.\<close>
  "whereHolds d q col =
     (if list_all isKeywordCondition (conditions q)
      then Some (list_all (\<lambda>c. keywordConditionHolds d c col = Some True) (conditions q))
      else None)"

section \<open>Entities\<close>

text \<open>
  The binary file relation of a Spiel is left out: no operation modelled here reads it.
\<close>

datatype SpielArt = BRETTSPIEL | COMPUTERSPIEL | ACTIONSPIEL

type_synonym Decimal = rat

type_synonym Date = nat

datatype 'a nullable = Undefined | Null | Value 'a

record Name =
  id_Name :: "int option"
  name_Name :: string
  untertitel :: "string option"

record Bild =
  id_Bild :: "int option"
  beschriftung :: string
  contentType :: "string option"

record Spiel =
  id_Spiel :: "int option"
  version :: "int option"
  barcode :: string
  rating :: "int option"
  art :: "SpielArt option"
  preis :: Decimal
  rabatt :: "Decimal option"
  lieferbar :: "bool option"
  datum :: "string option"
  homepage :: "string option"
  schlagwoerter :: "string list nullable"
  name :: "Name option"
  bilder :: "Bild list option"
  erzeugt :: "Date option"
  aktualisiert :: "Date option"

definition schlagwoerterColumn :: "Spiel \<Rightarrow> string option" where
  \<comment> \<open>the text stored in column \<open>schlagwoerter\<close>: the keywords joined by commas, or NULL\<close>
  "schlagwoerterColumn s = (case schlagwoerter s of Value ks \<Rightarrow> Some (joinComma ks) | _ \<Rightarrow> None)"

definition spielProps :: "string list" where
  \<comment> \<open>\<open>Object.getOwnPropertyNames(new Spiel())\<close>: the declared fields and \<open>toString\<close>\<close>
  "spielProps =
     [''id'', ''version'', ''barcode'', ''rating'', ''art'', ''preis'', ''rabatt'', ''lieferbar'',
      ''datum'', ''homepage'', ''schlagwoerter'', ''name'', ''bilder'', ''file'', ''erzeugt'',
      ''aktualisiert'', ''toString'']"

section \<open>Failures\<close>

datatype message =
    KeinSpielMitId "int option"  \<comment> \<open>\<open>Es gibt kein Spiel mit der ID ${id}.\<close>\<close>
  | UngueltigeSuchkriterien  \<comment> \<open>\<open>Ungueltige Suchkriterien\<close>\<close>
  | KeineSpieleGefunden Suchkriterien "int option"  \<comment> \<open>\<open>Keine Spiele gefunden: ...\<close>\<close>
  | UngueltigeSeite "int option"  \<comment> \<open>\<open>Ungueltige Seite "${pageable.number}"\<close>\<close>

datatype error =
    NotFoundException message
  | BarcodeExistsException string
  | VersionInvalidException string
  | VersionOutdatedException jsnumber
  | QueryFailedError string  \<comment> \<open>the database refuses a statement: the violated constraint\<close>

section \<open>The database\<close>

text \<open>
  The tables \<open>spiel\<close>, \<open>name\<close> and \<open>bild\<close> are kept as one list of Spiel rows, each
  with its name row and its bild rows. Identifiers come from the identity sequences of
  the tables. Of the constraints that \<open>create.sql\<close> gives the table \<open>spiel\<close>, the store
  enforces the one the services themselves rely on: \<open>barcode text NOT NULL UNIQUE\<close>. The
  range and NOT NULL checks are met by every entity that passed the validation of the
  controllers.
  \<open>effects\<close> is the list of the writes and mails done so far, oldest first.
\<close>

datatype effect =
    InsertSpiel int  \<comment> \<open>INSERT of the spiel row with this id, its name row and its bild rows\<close>
  | UpdateSpiel int  \<comment> \<open>UPDATE of the spiel row with this id\<close>
  | DeleteName int
  | DeleteBild "int option"
  | DeleteSpiel int
  | Sendmail string string  \<comment> \<open>subject and body\<close>

record database =
  spiel_table :: "Spiel list"
  spiel_id_seq :: int
  name_id_seq :: int
  bild_id_seq :: int
  effects :: "effect list"

definition init_database :: database where
  \<comment> \<open>the empty tables: \<open>GENERATED ALWAYS AS IDENTITY(START WITH 1000)\<close>\<close>
  "init_database =
     \<lparr>spiel_table = [], spiel_id_seq = 1000, name_id_seq = 1000, bild_id_seq = 1000, effects = []\<rparr>"

definition findRow :: "database \<Rightarrow> int \<Rightarrow> Spiel option" where
  "findRow db i = find (\<lambda>s. id_Spiel s = Some i) (spiel_table db)"

definition existsBy_barcode :: "database \<Rightarrow> string \<Rightarrow> bool" where
  \<comment> \<open>\<open>repo.existsBy({ barcode })\<close>\<close>
  "existsBy_barcode db b = list_ex (\<lambda>s. barcode s = b) (spiel_table db)"

section \<open>SpielReadService\<close>

definition buildId :: "int \<Rightarrow> bool \<Rightarrow> SelectQueryBuilder" where
  "buildId i mitBilder =
     (let q0 = innerJoinAndSelect ''spiel.name'' ''name'' (createQueryBuilder ''spiel'');
          q1 = (if mitBilder then leftJoinAndSelect ''spiel.bilder'' ''bild'' q0 else q0)
      in where_qb (IdEquals i) q1)"

definition getOne :: "database \<Rightarrow> SelectQueryBuilder \<Rightarrow> Spiel option" where
  \<comment> \<open>the entity that a query of \<open>buildId\<close> selects: the inner join drops a spiel that has
      no name row; the bilder are loaded only when they are joined\<close>
  "getOne db q =
     (case conditions q of
        [IdEquals i] \<Rightarrow>
          (case findRow db i of
             None \<Rightarrow> None
           | Some s \<Rightarrow>
               if name s = None then None
               else if LeftJoinAndSelect ''spiel.bilder'' ''bild'' \<in> set (joins q) then Some s
               else Some (s\<lparr>bilder := None\<rparr>))
      | _ \<Rightarrow> None)"

definition nullToEmpty :: "Spiel \<Rightarrow> Spiel" where
  \<comment> \<open>\<open>if (spiel.schlagwoerter === null) spiel.schlagwoerter = []\<close>\<close>
  "nullToEmpty spiel = (if schlagwoerter spiel = Null then spiel\<lparr>schlagwoerter := Value []\<rparr> else spiel)"

definition findById :: "database \<Rightarrow> int \<Rightarrow> bool \<Rightarrow> error + Spiel" where
  "findById db i mitBilder =
     (case getOne db (buildId i mitBilder) of
        None \<Rightarrow> Inl (NotFoundException (KeinSpielMitId (Some i)))
      | Some spiel \<Rightarrow> Inr (nullToEmpty spiel))"

text \<open>
  The queries of \<open>find\<close> are run by the database: \<open>getMany\<close> and \<open>getCount\<close> are
  parameters, and \<open>find\<close> returns, next to its result, the calls it made.
\<close>

record executor =
  getMany :: "SelectQueryBuilder \<Rightarrow> Spiel list"
  getCount :: "SelectQueryBuilder \<Rightarrow> nat"

datatype db_call = GetMany SelectQueryBuilder | GetCount SelectQueryBuilder

record Slice =
  content :: "Spiel list"
  totalElements :: nat

definition createSlice :: "Spiel list \<Rightarrow> nat \<Rightarrow> Slice" where
  "createSlice spiele n = \<lparr>content = map nullToEmpty spiele, totalElements = n\<rparr>"

definition checkKeys :: "string list \<Rightarrow> bool" where
  "checkKeys keys =
     foldl (\<lambda>validKeys key.
              if key \<notin> set spielProps \<and> key \<noteq> ''javascript'' \<and> key \<noteq> ''typescript''
                 \<and> key \<noteq> ''java'' \<and> key \<noteq> ''python''
              then False else validKeys)
       True keys"

definition checkEnums :: "Suchkriterien \<Rightarrow> bool" where
  "checkEnums such =
     (let artVal = getProp such ''art''
      in artVal = JUndefined \<or> artVal = JString ''EPUB'' \<or> artVal = JString ''HARDCOVER''
         \<or> artVal = JString ''PAPERBACK'')"

definition findAll :: "executor \<Rightarrow> config \<Rightarrow> Pageable \<Rightarrow> (error + Slice) \<times> db_call list" where
  "findAll ex cfg pageable =
     (let queryBuilder = build cfg [] (Some pageable);
          spiele = getMany ex queryBuilder
      in if spiele = []
         then (Inl (NotFoundException (UngueltigeSeite (number pageable))), [GetMany queryBuilder])
         else (Inr (createSlice spiele (getCount ex queryBuilder)),
               [GetMany queryBuilder, GetCount queryBuilder]))"

definition find_spiele ::
  "executor \<Rightarrow> config \<Rightarrow> Suchkriterien option \<Rightarrow> Pageable \<Rightarrow> (error + Slice) \<times> db_call list" where
  \<comment> \<open>\<open>SpielReadService.find\<close>\<close>
  "find_spiele ex cfg suchkriterien pageable =
     (case suchkriterien of
        None \<Rightarrow> findAll ex cfg pageable
      | Some such \<Rightarrow>
          let keys = map fst such
          in if keys = [] then findAll ex cfg pageable
             else if \<not> checkKeys keys \<or> \<not> checkEnums such
             then (Inl (NotFoundException UngueltigeSuchkriterien), [])
             else
               let queryBuilder = build cfg such (Some pageable);
                   spiele = getMany ex queryBuilder
               in if spiele = []
                  then (Inl (NotFoundException (KeineSpieleGefunden such (number pageable))),
                        [GetMany queryBuilder])
                  else (Inr (createSlice spiele (getCount ex queryBuilder)),
                        [GetMany queryBuilder, GetCount queryBuilder]))"

section \<open>Regular expressions\<close>

text \<open>
  A pattern that starts with \<open>^\<close> and has no \<open>$\<close>: a sequence of items, matched from
  the first character of the text; what follows the match is not looked at.
\<close>

datatype atom = Literal char | Digit

datatype item = One atom | Repeat atom nat nat

definition atomMatches :: "atom \<Rightarrow> char \<Rightarrow> bool" where
  "atomMatches a c =
     (case a of Literal l \<Rightarrow> c = l | Digit \<Rightarrow> isDecimalDigit c)"

fun matchesAtStart :: "item list \<Rightarrow> string \<Rightarrow> bool" where
  "matchesAtStart [] s = True"
| "matchesAtStart (One a # items) s =
     (case s of [] \<Rightarrow> False | c # r \<Rightarrow> atomMatches a c \<and> matchesAtStart items r)"
| "matchesAtStart (Repeat a m n # items) s =
     list_ex (\<lambda>k. k \<le> length s \<and> list_all (atomMatches a) (take k s) \<and> matchesAtStart items (drop k s))
       [m..<Suc n]"

definition VERSION_PATTERN :: "item list" where
  \<comment> \<open>the pattern of one double quote, one to three digits and one double quote\<close>
  "VERSION_PATTERN = [One (Literal (CHR 0x22)), Repeat Digit 1 3, One (Literal (CHR 0x22))]"

section \<open>SpielWriteService\<close>

function natToString :: "nat \<Rightarrow> string" where
  "natToString n =
     (if n < 10 then [char_of (48 + n)] else natToString (n div 10) @ [char_of (48 + n mod 10)])"
  by pat_completeness auto
termination
  by (relation "measure (\<lambda>n. n)") auto

declare natToString.simps [simp del]

definition idToString :: "int option \<Rightarrow> string" where
  \<comment> \<open>\<open>${spiel.id}\<close>\<close>
  "idToString i =
     (case i of
        None \<Rightarrow> ''undefined''
      | Some n \<Rightarrow> (if n < 0 then ''-'' else []) @ natToString (nat \<bar>n\<bar>))"

definition numberBilder :: "int \<Rightarrow> Bild list \<Rightarrow> Bild list" where
  "numberBilder first bs = map (\<lambda>(k, b). b\<lparr>id_Bild := Some (first + int k)\<rparr>) (enumerate 0 bs)"

definition insertSpiel :: "database \<Rightarrow> Spiel \<Rightarrow> (error + Spiel) \<times> database" where
  "insertSpiel db spiel =
     (if existsBy_barcode db (barcode spiel) then (Inl (QueryFailedError ''barcode UNIQUE''), db)
      else
        let i = spiel_id_seq db;
            bs = numberBilder (bild_id_seq db) (case bilder spiel of None \<Rightarrow> [] | Some bs \<Rightarrow> bs);
            row = spiel\<lparr>id_Spiel := Some i, version := Some 0,
                    name := map_option (\<lambda>n. n\<lparr>id_Name := Some (name_id_seq db)\<rparr>) (name spiel),
                    bilder := Some bs\<rparr>
        in (Inr row,
            db\<lparr>spiel_table := spiel_table db @ [row],
               spiel_id_seq := i + 1,
               name_id_seq := name_id_seq db + (if name spiel = None then 0 else 1),
               bild_id_seq := bild_id_seq db + int (length bs),
               effects := effects db @ [InsertSpiel i]\<rparr>))"

definition updateSpiel :: "database \<Rightarrow> int \<Rightarrow> Spiel \<Rightarrow> Spiel \<Rightarrow> (error + Spiel) \<times> database" where
  "updateSpiel db i row spiel =
     (if list_ex (\<lambda>s. barcode s = barcode spiel \<and> id_Spiel s \<noteq> Some i) (spiel_table db)
      then (Inl (QueryFailedError ''barcode UNIQUE''), db)
      else
        let updated = spiel\<lparr>version := Some ((case version row of None \<Rightarrow> 0 | Some v \<Rightarrow> v) + 1)\<rparr>;
            row' = updated\<lparr>name := name row, bilder := bilder row\<rparr>
        in (Inr updated,
            db\<lparr>spiel_table := map (\<lambda>s. if id_Spiel s = Some i then row' else s) (spiel_table db),
               effects := effects db @ [UpdateSpiel i]\<rparr>))"

definition save :: "database \<Rightarrow> Spiel \<Rightarrow> (error + Spiel) \<times> database" where
  \<comment> \<open>Modelled from the spec: the ORM's \<open>repo.save\<close> is not part of the sources. An entity
      without id, or with an id that no row has, is inserted under a generated id, its
      version counter starting at zero (the column's \<open>DEFAULT 0\<close>), together with its name
      and bilder (cascade on insert). An entity whose id a row has is written over that
      row, and the ORM increments the version counter by one; the name and bild rows are
      left as they are. The database refuses a barcode that another row holds.\<close>
  "save db spiel =
     (case id_Spiel spiel of
        None \<Rightarrow> insertSpiel db spiel
      | Some i \<Rightarrow>
          (case findRow db i of
             None \<Rightarrow> insertSpiel db spiel
           | Some row \<Rightarrow> updateSpiel db i row spiel))"

definition orElse :: "'a option \<Rightarrow> 'a option \<Rightarrow> 'a option" where
  "orElse new old = (case new of None \<Rightarrow> old | Some v \<Rightarrow> Some v)"

definition mergeName :: "Name option \<Rightarrow> Name option \<Rightarrow> Name option" where
  "mergeName old new =
     (case new of
        None \<Rightarrow> old
      | Some n \<Rightarrow>
          (case old of
             None \<Rightarrow> Some n
           | Some m \<Rightarrow>
               Some \<lparr>id_Name = orElse (id_Name n) (id_Name m), name_Name = name_Name n,
                     untertitel = orElse (untertitel n) (untertitel m)\<rparr>))"

definition merge :: "Spiel \<Rightarrow> Spiel \<Rightarrow> Spiel" where
  \<comment> \<open>\<open>repo.merge(spielDb, spiel)\<close>: every property of \<open>spiel\<close> that is not
      \<open>undefined\<close> is written over the one of \<open>spielDb\<close>\<close>
  "merge spielDb spiel =
     \<lparr>id_Spiel = orElse (id_Spiel spiel) (id_Spiel spielDb),
      version = orElse (version spiel) (version spielDb),
      barcode = barcode spiel,
      rating = orElse (rating spiel) (rating spielDb),
      art = orElse (art spiel) (art spielDb),
      preis = preis spiel,
      rabatt = orElse (rabatt spiel) (rabatt spielDb),
      lieferbar = orElse (lieferbar spiel) (lieferbar spielDb),
      datum = orElse (datum spiel) (datum spielDb),
      homepage = orElse (homepage spiel) (homepage spielDb),
      schlagwoerter = (if schlagwoerter spiel = Undefined then schlagwoerter spielDb else schlagwoerter spiel),
      name = mergeName (name spielDb) (name spiel),
      bilder = orElse (bilder spiel) (bilder spielDb),
      erzeugt = orElse (erzeugt spiel) (erzeugt spielDb),
      aktualisiert = orElse (aktualisiert spiel) (aktualisiert spielDb)\<rparr>"

definition validateCreate :: "database \<Rightarrow> Spiel \<Rightarrow> error + unit" where
  "validateCreate db spiel =
     (if existsBy_barcode db (barcode spiel) then Inl (BarcodeExistsException (barcode spiel))
      else Inr ())"

definition sendmail :: "database \<Rightarrow> Spiel \<Rightarrow> database" where
  "sendmail db spiel =
     (let subject = ''Neues Spiel '' @ idToString (id_Spiel spiel);
          nameText = (case name spiel of None \<Rightarrow> ''N/A'' | Some n \<Rightarrow> name_Name n);
          body = ''Das Spiel mit dem Name <strong>'' @ nameText @ ''</strong> ist angelegt''
      in db\<lparr>effects := effects db @ [Sendmail subject body]\<rparr>)"

definition create :: "database \<Rightarrow> Spiel \<Rightarrow> (error + int option) \<times> database" where
  "create db spiel =
     (case validateCreate db spiel of
        Inl e \<Rightarrow> (Inl e, db)
      | Inr _ \<Rightarrow>
          (case save db spiel of
             (Inl e, db1) \<Rightarrow> (Inl e, db1)
           | (Inr spielDb, db1) \<Rightarrow> (Inr (id_Spiel spielDb), sendmail db1 spielDb)))"

definition lessThanVersion :: "jsnumber \<Rightarrow> int option \<Rightarrow> bool" where
  \<comment> \<open>\<open>version < versionDb\<close>: false when either side is not a number\<close>
  "lessThanVersion v versionDb =
     (case v of NaN \<Rightarrow> False | Num n \<Rightarrow> (case versionDb of None \<Rightarrow> False | Some d \<Rightarrow> n < d))"

definition validateUpdate :: "database \<Rightarrow> Spiel \<Rightarrow> int \<Rightarrow> string \<Rightarrow> error + Spiel" where
  "validateUpdate db spiel i versionStr =
     (if \<not> matchesAtStart VERSION_PATTERN versionStr then Inl (VersionInvalidException versionStr)
      else
        let v = parseInt (slice versionStr 1 (- 1)) (Some 10)
        in (case findById db i False of
              Inl e \<Rightarrow> Inl e
            | Inr spielDb \<Rightarrow>
                if lessThanVersion v (version spielDb) then Inl (VersionOutdatedException v)
                else Inr spielDb))"

definition update :: "database \<Rightarrow> int option \<Rightarrow> Spiel \<Rightarrow> string \<Rightarrow> (error + int option) \<times> database" where
  \<comment> \<open>what \<open>validateUpdate\<close> returns is an entity that the ORM loaded, an instance of
      \<open>Spiel\<close>: the early return for other results is never taken\<close>
  "update db idOpt spiel versionStr =
     (case idOpt of
        None \<Rightarrow> (Inl (NotFoundException (KeinSpielMitId None)), db)
      | Some i \<Rightarrow>
          (case validateUpdate db spiel i versionStr of
             Inl e \<Rightarrow> (Inl e, db)
           | Inr spielNeu \<Rightarrow>
               (case save db (merge spielNeu spiel) of
                  (Inl e, db1) \<Rightarrow> (Inl e, db1)
                | (Inr updated, db1) \<Rightarrow> (Inr (version updated), db1))))"

definition deleteName :: "database \<Rightarrow> int \<Rightarrow> database" where
  "deleteName db nameId =
     db\<lparr>spiel_table :=
          map (\<lambda>s. case name s of
                      None \<Rightarrow> s
                    | Some n \<Rightarrow> if id_Name n = Some nameId then s\<lparr>name := None\<rparr> else s)
            (spiel_table db),
        effects := effects db @ [DeleteName nameId]\<rparr>"

definition deleteBild :: "database \<Rightarrow> int option \<Rightarrow> database" where
  "deleteBild db bildId =
     db\<lparr>spiel_table :=
          map (\<lambda>s. s\<lparr>bilder := map_option (filter (\<lambda>b. bildId = None \<or> id_Bild b \<noteq> bildId)) (bilder s)\<rparr>)
            (spiel_table db),
        effects := effects db @ [DeleteBild bildId]\<rparr>"

definition deleteSpielRow :: "database \<Rightarrow> int \<Rightarrow> nat \<times> database" where
  \<comment> \<open>the number of rows affected, and the table without them\<close>
  "deleteSpielRow db i =
     (length (filter (\<lambda>s. id_Spiel s = Some i) (spiel_table db)),
      db\<lparr>spiel_table := filter (\<lambda>s. id_Spiel s \<noteq> Some i) (spiel_table db),
         effects := effects db @ [DeleteSpiel i]\<rparr>)"

definition delete :: "database \<Rightarrow> int \<Rightarrow> (error + bool) \<times> database" where
  "delete db i =
     (case findById db i True of
        Inl e \<Rightarrow> (Inl e, db)
      | Inr spiel \<Rightarrow>
          let nameId = (case name spiel of None \<Rightarrow> None | Some n \<Rightarrow> id_Name n);
              db1 = (case nameId of None \<Rightarrow> db | Some n \<Rightarrow> deleteName db n);
              bs = (case bilder spiel of None \<Rightarrow> [] | Some bs \<Rightarrow> bs);
              db2 = foldl (\<lambda>d bild. deleteBild d (id_Bild bild)) db1 bs;
              deleteResult = deleteSpielRow db2 i
          in (Inr (fst deleteResult > 0), snd deleteResult))"

section \<open>Histories of create, update and delete\<close>

datatype operation = Create Spiel | Update "int option" Spiel string | Delete int

datatype outcome =
    Created "int option"  \<comment> \<open>the id that \<open>create\<close> returned\<close>
  | Updated "int option" "int option"  \<comment> \<open>the id passed to \<open>update\<close>, and the version it returned\<close>
  | Deleted bool
  | Failed error

definition step :: "database \<Rightarrow> operation \<Rightarrow> outcome \<times> database" where
  "step db op =
     (case op of
        Create spiel \<Rightarrow>
          (case create db spiel of (Inl e, db1) \<Rightarrow> (Failed e, db1) | (Inr i, db1) \<Rightarrow> (Created i, db1))
      | Update idOpt spiel versionStr \<Rightarrow>
          (case update db idOpt spiel versionStr of
             (Inl e, db1) \<Rightarrow> (Failed e, db1)
           | (Inr v, db1) \<Rightarrow> (Updated idOpt v, db1))
      | Delete i \<Rightarrow>
          (case delete db i of (Inl e, db1) \<Rightarrow> (Failed e, db1) | (Inr b, db1) \<Rightarrow> (Deleted b, db1)))"

definition withoutId :: "operation \<Rightarrow> bool" where
  \<comment> \<open>the entity of the operation is as the controllers build it from a request: its
      id and version are \<open>undefined\<close>\<close>
  "withoutId op =
     (case op of
        Create spiel \<Rightarrow> id_Spiel spiel = None \<and> version spiel = None
      | Update idOpt spiel versionStr \<Rightarrow> id_Spiel spiel = None \<and> version spiel = None
      | Delete i \<Rightarrow> True)"

inductive reachable :: "outcome list \<Rightarrow> database \<Rightarrow> bool" where
  \<comment> \<open>the databases reached from the empty tables, with the outcomes of the operations
      run so far, oldest first\<close>
  initial: "reachable [] init_database"
| next_step: "reachable outs db \<Longrightarrow> withoutId op \<Longrightarrow> step db op = (out, db1)
    \<Longrightarrow> reachable (outs @ [out]) db1"

definition updatesOf :: "int \<Rightarrow> outcome list \<Rightarrow> nat" where
  \<comment> \<open>how many updates of item \<open>i\<close> have succeeded\<close>
  "updatesOf i outs =
     length (filter (\<lambda>out. case out of Updated idOpt v \<Rightarrow> idOpt = Some i | _ \<Rightarrow> False) outs)"

definition versionsCounted :: "outcome list \<Rightarrow> database \<Rightarrow> bool" where
  \<comment> \<open>every stored item has an id below the next id of the sequence, and its version
      is the number of its successful updates; no update of a later id has succeeded\<close>
  "versionsCounted outs db \<longleftrightarrow>
     (\<forall>s \<in> set (spiel_table db).
        \<exists>i. id_Spiel s = Some i \<and> i < spiel_id_seq db \<and> version s = Some (int (updatesOf i outs)))
     \<and> (\<forall>i. spiel_id_seq db \<le> i \<longrightarrow> updatesOf i outs = 0)"

section \<open>Example values\<close>

definition quoted :: "string \<Rightarrow> string" where
  \<comment> \<open>a text between double quotes, as an ETag carries a version number\<close>
  "quoted s = CHR 0x22 # s @ [CHR 0x22]"

definition exampleConfig :: config where
  "exampleConfig = \<lparr>postgres = True, DEFAULT_PAGE_SIZE = 5, DEFAULT_PAGE_NUMBER = 0\<rparr>"

definition exampleSpiel :: "string \<Rightarrow> Spiel" where
  \<comment> \<open>a new Spiel as the controllers hand it to \<open>create\<close>: no id, no version\<close>
  "exampleSpiel code =
     \<lparr>id_Spiel = None, version = None, barcode = code, rating = Some 3, art = Some BRETTSPIEL,
      preis = 10, rabatt = Some 0, lieferbar = Some True, datum = None, homepage = None,
      schlagwoerter = Value [''JAVA'', ''JAVASCRIPT''],
      name = Some \<lparr>id_Name = None, name_Name = ''Alpha'', untertitel = None\<rparr>,
      bilder = None, erzeugt = Some 1, aktualisiert = Some 1\<rparr>"

definition exampleUpdate :: "string \<Rightarrow> Spiel" where
  \<comment> \<open>the values of an update as the controllers hand them to \<open>update\<close>\<close>
  "exampleUpdate code =
     \<lparr>id_Spiel = None, version = None, barcode = code, rating = Some 5, art = None,
      preis = 20, rabatt = Some 0, lieferbar = None, datum = None, homepage = None,
      schlagwoerter = Undefined, name = None, bilder = None, erzeugt = None,
      aktualisiert = Some 2\<rparr>"

definition exampleExecutor :: executor where
  \<comment> \<open>a database in which every query selects one row\<close>
  "exampleExecutor = \<lparr>getMany = (\<lambda>q. [exampleSpiel ''1'']), getCount = (\<lambda>q. 1)\<rparr>"

definition oneSpiel :: database where
  "oneSpiel = snd (create init_database (exampleSpiel ''1''))"


definition updatedOnce :: database where
  "updatedOnce = snd (update oneSpiel (Some 1000) (exampleUpdate ''5'') (quoted ''0''))"

section \<open>Properties of the query builder\<close>

subsection \<open>Paging\<close>

lemma limits_where_qb [simp]:
  "take_qb (where_qb c q) = take_qb q" "skip_qb (where_qb c q) = skip_qb q"
  by (simp_all add: where_qb_def)

lemma limits_andWhere [simp]:
  "take_qb (andWhere c q) = take_qb q" "skip_qb (andWhere c q) = skip_qb q"
  by (simp_all add: andWhere_def)

lemma limits_whereOrAnd [simp]:
  "take_qb (fst (whereOrAnd c st)) = take_qb (fst st)"
  "skip_qb (fst (whereOrAnd c st)) = skip_qb (fst st)"
  by (simp_all add: whereOrAnd_def)

lemma limits_build_name [simp]:
  "take_qb (fst (build_name cfg v st)) = take_qb (fst st)"
  "skip_qb (fst (build_name cfg v st)) = skip_qb (fst st)"
  by (simp_all add: build_name_def split: jsval.splits)

lemma limits_build_rating [simp]:
  "take_qb (fst (build_rating v st)) = take_qb (fst st)"
  "skip_qb (fst (build_rating v st)) = skip_qb (fst st)"
  by (simp_all add: build_rating_def split: jsval.splits jsnumber.splits)

lemma limits_build_preis [simp]:
  "take_qb (fst (build_preis v st)) = take_qb (fst st)"
  "skip_qb (fst (build_preis v st)) = skip_qb (fst st)"
  by (simp_all add: build_preis_def split: jsval.splits)

lemma limits_build_flag [simp]:
  "take_qb (fst (build_flag v c st)) = take_qb (fst st)"
  "skip_qb (fst (build_flag v c st)) = skip_qb (fst st)"
  by (simp_all add: build_flag_def)

lemma limits_build_rest [simp]:
  "take_qb (fst (build_rest rest st)) = take_qb (fst st)"
  "skip_qb (fst (build_rest rest st)) = skip_qb (fst st)"
  unfolding build_rest_def by (induction rest arbitrary: st) simp_all

lemma limits_build_where:
  "take_qb (build_where cfg such) = None" "skip_qb (build_where cfg such) = None"
  by (simp_all add: build_where_def Let_def createQueryBuilder_def innerJoinAndSelect_def)

text \<open>
  Claim C8. For every page descriptor passed to \<open>build\<close>: when the page size is 0, the
  query has neither limit nor offset; otherwise the limit is the page size and the offset
  is page number times page size, where \<open>DEFAULT_PAGE_SIZE\<close> and \<open>DEFAULT_PAGE_NUMBER\<close>
  stand in for a size or number that is absent (also when the descriptor itself is
  absent). The two defaults are parameters: the module that sets them is not among
  the sources.
\<close>

theorem build_paging:
  "take_qb (build cfg such None) = Some (DEFAULT_PAGE_SIZE cfg)
   \<and> skip_qb (build cfg such None) = Some (DEFAULT_PAGE_NUMBER cfg * DEFAULT_PAGE_SIZE cfg)
   \<and> (size_p p = Some 0 \<longrightarrow>
        take_qb (build cfg such (Some p)) = None \<and> skip_qb (build cfg such (Some p)) = None)
   \<and> (size_p p \<noteq> Some 0 \<longrightarrow>
        take_qb (build cfg such (Some p))
          = Some (case size_p p of None \<Rightarrow> DEFAULT_PAGE_SIZE cfg | Some s \<Rightarrow> s)
        \<and> skip_qb (build cfg such (Some p))
          = Some ((case number p of None \<Rightarrow> DEFAULT_PAGE_NUMBER cfg | Some n \<Rightarrow> n)
                  * (case size_p p of None \<Rightarrow> DEFAULT_PAGE_SIZE cfg | Some s \<Rightarrow> s)))"
  by (simp add: build_def Let_def limits_build_where take_rows_def skip_rows_def)

theorem build_paging_witness:
  "take_qb (build exampleConfig [(''rating'', JString ''4'')]
      (Some \<lparr>number = Some 2, size_p = Some 0\<rparr>)) = None
   \<and> skip_qb (build exampleConfig [(''rating'', JString ''4'')]
      (Some \<lparr>number = Some 2, size_p = Some 0\<rparr>)) = None
   \<and> take_qb (build exampleConfig [(''rating'', JString ''4'')]
      (Some \<lparr>number = Some 2, size_p = Some 10\<rparr>)) = Some 10
   \<and> skip_qb (build exampleConfig [(''rating'', JString ''4'')]
      (Some \<lparr>number = Some 2, size_p = Some 10\<rparr>)) = Some 20
   \<and> take_qb (build exampleConfig [(''rating'', JString ''4'')]
      (Some \<lparr>number = Some 2, size_p = None\<rparr>)) = Some 5
   \<and> skip_qb (build exampleConfig [(''rating'', JString ''4'')]
      (Some \<lparr>number = None, size_p = Some 10\<rparr>)) = Some 0"
  using build_paging [of exampleConfig "[(''rating'', JString ''4'')]"
      "\<lparr>number = Some 2, size_p = Some 0\<rparr>"]
    build_paging [of exampleConfig "[(''rating'', JString ''4'')]"
      "\<lparr>number = Some 2, size_p = Some 10\<rparr>"]
    build_paging [of exampleConfig "[(''rating'', JString ''4'')]"
      "\<lparr>number = Some 2, size_p = None\<rparr>"]
    build_paging [of exampleConfig "[(''rating'', JString ''4'')]"
      "\<lparr>number = None, size_p = Some 10\<rparr>"]
  by (simp add: exampleConfig_def)

subsection \<open>Conditions that are dropped\<close>

text \<open>
  Claim C1. A criteria object with a name and a rating has two recognized keys, but the
  query that \<open>build\<close> produces holds the rating condition alone: the rating is set with
  \<open>where\<close>, which drops the name condition set before it. The same happens between
  name, rating and preis in every combination; only the keyword flags and the remaining
  properties choose between \<open>where\<close> and \<open>andWhere\<close>.
\<close>

theorem build_drops_name_condition:
  "conditions (build cfg [(''name'', JString ''a''), (''rating'', JString ''5'')] pageable)
   = [RatingGe (JNumber (Num 5))]"
proof -
  have r: "parseInt ''5'' None = Num 5"
    by (simp add: parseInt_def Let_def isWhiteSpace_def stripHexPrefix_def isRadixDigit_def
        digitValue_def radixValue_def)
  have "conditions (build_where cfg [(''name'', JString ''a''), (''rating'', JString ''5'')])
        = [RatingGe (JNumber (Num 5))]"
    by (simp add: build_where_def Let_def getProp_def build_name_def build_rating_def r
        build_preis_def build_flag_def build_rest_def restProps_def destructured_def
        where_qb_def conditions_def)
  then show ?thesis
    by (simp add: build_def Let_def conditions_def take_rows_def skip_rows_def)
qed

subsection \<open>Keyword flags\<close>

lemma like_percent: "like ''%'' s"
  by (induction s) auto

lemma like_literal_percent: "CHR ''%'' \<notin> set x \<Longrightarrow> CHR ''_'' \<notin> set x \<Longrightarrow> like (x @ ''%'') s = prefix x s"
proof (induction x arbitrary: s)
  case Nil
  then show ?case using like_percent by simp
next
  case (Cons c x)
  then show ?case by (cases s) auto
qed

lemma like_contains:
  assumes "CHR ''%'' \<notin> set x" and "CHR ''_'' \<notin> set x"
  shows "like (''%'' @ x @ ''%'') s = sublist x s"
proof (induction s)
  case Nil
  then show ?case using like_literal_percent [OF assms, of "[]"] by simp
next
  case (Cons c s)
  then show ?case using like_literal_percent [OF assms, of "c # s"]
    by (simp add: sublist_Cons_right)
qed

lemma conditions_where_qb [simp]: "conditions (where_qb c q) = [c]"
  by (simp add: conditions_def where_qb_def)

lemma conditions_andWhere [simp]: "conditions (andWhere c q) = conditions q @ [c]"
  by (simp add: conditions_def andWhere_def)

lemma conditions_build: "conditions (build cfg such pageable) = conditions (build_where cfg such)"
  by (simp add: build_def Let_def conditions_def take_rows_def skip_rows_def)

lemma keyword_like:
  assumes "CHR ''%'' \<notin> set x" and "CHR ''_'' \<notin> set x"
  shows "keywordConditionHolds PostgreSQL (SchlagwoerterLike (''%'' @ x @ ''%'')) (Some t) = Some (sublist x t)"
  using like_contains [OF assms] by (simp add: keywordConditionHolds_def likeOf_def)

lemma keyword_java:
  "keywordConditionHolds PostgreSQL javaCondition (Some t)
   = Some (sublist ''JAVA'' (replace_all ''JAVASCRIPT'' [] t))"
  using like_contains [of "''JAVA''"] by (simp add: keywordConditionHolds_def likeOf_def javaCondition_def)

lemma prefix_before: "prefix old (a @ c # b) \<Longrightarrow> c \<notin> set old \<Longrightarrow> prefix old a"
proof (induction a arbitrary: old)
  case Nil
  then show ?case by (cases old) auto
next
  case (Cons x a)
  then show ?case by (cases old) auto
qed

lemma replace_all_match:
  "old \<noteq> [] \<Longrightarrow> replace_all old new (old @ r) = new @ replace_all old new r"
  by (subst replace_all.simps) simp

lemma replace_all_no_match:
  assumes "old \<noteq> []" and "\<not> prefix old (x # s)"
  shows "replace_all old new (x # s) = x # replace_all old new s"
proof -
  have "replace_all old new (x # s) =
      (if prefix old (x # s) then new @ replace_all old new (drop (length old) (x # s))
       else x # replace_all old new s)"
    using assms(1) by (subst replace_all.simps) (simp del: prefix_Cons)
  then show ?thesis using assms(2) by (simp only: if_False)
qed

lemma replace_all_Nil: "replace_all old new [] = []"
  by (subst replace_all.simps) simp

lemma replace_all_split:
  "c \<notin> set old \<Longrightarrow> old \<noteq> [] \<Longrightarrow>
   replace_all old new (a @ c # b) = replace_all old new a @ c # replace_all old new b"
proof (induction "length a" arbitrary: a rule: less_induct)
  case less
  show ?case
  proof (cases "prefix old a")
    case True
    then obtain r where r: "a = old @ r" by (auto simp: prefix_def)
    have "length r < length a" using r less.prems by simp
    then have IH: "replace_all old new (r @ c # b) = replace_all old new r @ c # replace_all old new b"
      by (rule less.hyps [OF _ less.prems])
    have e1: "replace_all old new (old @ r @ c # b) = new @ replace_all old new (r @ c # b)"
      by (rule replace_all_match [OF less.prems(2)])
    have e2: "replace_all old new (old @ r) = new @ replace_all old new r"
      by (rule replace_all_match [OF less.prems(2)])
    show ?thesis unfolding r append_assoc e1 e2 IH by simp
  next
    case False
    have np: "\<not> prefix old (a @ c # b)"
    proof
      assume "prefix old (a @ c # b)"
      then have "prefix old a" using less.prems(1) by (rule prefix_before)
      then show False using False by simp
    qed
    show ?thesis
    proof (cases a)
      case Nil
      have "replace_all old new (c # b) = c # replace_all old new b"
        using less.prems(2) np unfolding Nil append_Nil by (rule replace_all_no_match)
      then show ?thesis unfolding Nil by (simp add: replace_all_Nil)
    next
      case (Cons x a')
      have "length a' < length a" unfolding Cons by simp
      then have IH: "replace_all old new (a' @ c # b) = replace_all old new a' @ c # replace_all old new b"
        by (rule less.hyps [OF _ less.prems])
      have e1: "replace_all old new (x # a' @ c # b) = x # replace_all old new (a' @ c # b)"
        using less.prems(2) np unfolding Cons append_Cons by (rule replace_all_no_match)
      have e2: "replace_all old new (x # a') = x # replace_all old new a'"
        using less.prems(2) False unfolding Cons by (rule replace_all_no_match)
      show ?thesis unfolding Cons append_Cons e1 e2 IH by simp
    qed
  qed
qed

lemma joinComma_Cons: "ks \<noteq> [] \<Longrightarrow> joinComma (k # ks) = k @ CHR '','' # joinComma ks"
  by (cases ks) auto

lemma joinComma_append:
  "ks1 \<noteq> [] \<Longrightarrow> ks2 \<noteq> [] \<Longrightarrow> joinComma (ks1 @ ks2) = joinComma ks1 @ CHR '','' # joinComma ks2"
proof (induction ks1)
  case Nil
  then show ?case by simp
next
  case (Cons k ks1)
  then show ?case by (cases "ks1 = []") (auto simp: joinComma_Cons)
qed

lemma replace_keeps_segment:
  assumes "k \<in> set kws" and "CHR '','' \<notin> set old" and "old \<noteq> []"
  shows "sublist (replace_all old new k) (replace_all old new (joinComma kws))"
proof -
  obtain ks1 ks2 where kws: "kws = ks1 @ k # ks2" using assms(1) by (auto simp: in_set_conv_decomp)
  have tail: "\<And>ks. sublist (replace_all old new k) (replace_all old new (joinComma (k # ks)))"
  proof -
    fix ks show "sublist (replace_all old new k) (replace_all old new (joinComma (k # ks)))"
    proof (cases "ks = []")
      case True then show ?thesis by simp
    next
      case False
      then show ?thesis using replace_all_split [OF assms(2,3)]
        by (simp add: joinComma_Cons sublist_append)
    qed
  qed
  show ?thesis
  proof (cases "ks1 = []")
    case True
    then show ?thesis using tail kws by simp
  next
    case False
    have "joinComma kws = joinComma ks1 @ CHR '','' # joinComma (k # ks2)"
      using kws False joinComma_append [of ks1 "k # ks2"] by simp
    then have "replace_all old new (joinComma kws) =
        replace_all old new (joinComma ks1) @ CHR '','' # replace_all old new (joinComma (k # ks2))"
      using replace_all_split [OF assms(2,3)] by simp
    then show ?thesis using tail [of ks2] by (simp add: sublist_append sublist_Cons_right)
  qed
qed


lemma replace_java: "replace_all ''JAVASCRIPT'' [] ''JAVA'' = ''JAVA''"
  by (simp add: replace_all.simps)

lemma java_keyword_matches:
  assumes "''JAVA'' \<in> set ks"
  shows "keywordConditionHolds PostgreSQL javaCondition (Some (joinComma ks)) = Some True"
  using replace_keeps_segment [OF assms, of "''JAVASCRIPT''" "[]"]
  by (simp add: keyword_java replace_java)

lemma replace_all_absent:
  assumes "old \<noteq> []"
  shows "\<not> sublist old t \<Longrightarrow> replace_all old new t = t"
proof (induction t)
  case Nil
  then show ?case by (simp add: replace_all_Nil)
next
  case (Cons x t)
  have np: "\<not> prefix old (x # t)" using Cons.prems by (auto simp: sublist_Cons_right)
  have "\<not> sublist old t" using Cons.prems by (auto simp: sublist_Cons_right)
  then have "replace_all old new t = t" by (rule Cons.IH)
  then show ?case using replace_all_no_match [OF assms np, of new] by simp
qed

lemma sublist_split:
  assumes "c \<notin> set x"
  shows "sublist x (a @ c # b) \<Longrightarrow> sublist x a \<or> sublist x b"
proof (induction a)
  case Nil
  then have "prefix x (c # b) \<or> sublist x b" by (simp add: sublist_Cons_right)
  moreover have "prefix x (c # b) \<Longrightarrow> x = []" using assms by (cases x) auto
  ultimately show ?case by auto
next
  case (Cons y a)
  then have "prefix x ((y # a) @ c # b) \<or> sublist x (a @ c # b)"
    by (simp add: sublist_Cons_right)
  then show ?case
  proof
    assume "prefix x ((y # a) @ c # b)"
    then have "prefix x (y # a)" using assms by (rule prefix_before)
    then show ?thesis by (simp add: prefix_imp_sublist)
  next
    assume "sublist x (a @ c # b)"
    then have "sublist x a \<or> sublist x b" by (rule Cons.IH)
    then show ?thesis by (auto simp: sublist_Cons_right)
  qed
qed

lemma sublist_joinComma:
  assumes "CHR '','' \<notin> set x" and "x \<noteq> []"
  shows "(\<forall>k \<in> set ks. \<not> sublist x k) \<Longrightarrow> \<not> sublist x (joinComma ks)"
proof (induction ks rule: joinComma.induct)
  case 1
  then show ?case using assms(2) by simp
next
  case (2 k)
  then show ?case by simp
next
  case (3 k k1 ks)
  have "\<not> sublist x k" "\<not> sublist x (joinComma (k1 # ks))" using 3 by simp_all
  then show ?case using sublist_split [OF assms(1), of k "joinComma (k1 # ks)"] by auto
qed

lemma replace_joinComma:
  assumes "CHR '','' \<notin> set old" and "old \<noteq> []"
  shows "replace_all old new (joinComma ks) = joinComma (map (replace_all old new) ks)"
proof (induction ks rule: joinComma.induct)
  case 1
  then show ?case by (simp add: replace_all_Nil)
next
  case (2 k)
  then show ?case by simp
next
  case (3 k k1 ks)
  then show ?case using replace_all_split [OF assms, of new k "joinComma (k1 # ks)"] by simp
qed

lemma java_only_javascript:
  assumes "\<forall>k \<in> set ks. k = ''JAVASCRIPT'' \<or> \<not> sublist ''JAVA'' k"
  shows "keywordConditionHolds PostgreSQL javaCondition (Some (joinComma ks)) = Some False"
proof -
  have "\<forall>k \<in> set (map (replace_all ''JAVASCRIPT'' []) ks). \<not> sublist ''JAVA'' k"
  proof
    fix k1 assume "k1 \<in> set (map (replace_all ''JAVASCRIPT'' []) ks)"
    then obtain k where k: "k \<in> set ks" "k1 = replace_all ''JAVASCRIPT'' [] k" by auto
    show "\<not> sublist ''JAVA'' k1"
    proof (cases "k = ''JAVASCRIPT''")
      case True
      then have "k1 = []" using k by (simp add: replace_all.simps)
      then show ?thesis by simp
    next
      case False
      then have n: "\<not> sublist ''JAVA'' k" using assms k by blast
      have "sublist ''JAVA'' ''JAVASCRIPT''" by (simp add: sublist_Cons_right)
      then have "\<not> sublist ''JAVASCRIPT'' k" using n sublist_order.order_trans by blast
      then have "k1 = k" using k replace_all_absent [of "''JAVASCRIPT''" k "[]"] by simp
      then show ?thesis using n by simp
    qed
  qed
  then have "\<not> sublist ''JAVA'' (joinComma (map (replace_all ''JAVASCRIPT'' []) ks))"
    using sublist_joinComma [of "''JAVA''"] by simp
  then show ?thesis
    using replace_joinComma [of "''JAVASCRIPT''" "[]" ks] by (simp add: keyword_java)
qed

lemma whereOrAnd_conditions:
  assumes "snd st \<longrightarrow> conditions (fst st) = []"
  shows "conditions (fst (whereOrAnd c st)) = conditions (fst st) @ [c] \<and> \<not> snd (whereOrAnd c st)"
  using assms by (simp add: whereOrAnd_def)

lemma build_flag_conditions:
  assumes "snd st \<longrightarrow> conditions (fst st) = []"
  shows "conditions (fst (build_flag v c st))
           = conditions (fst st) @ (if v = JString ''true'' then [c] else [])
         \<and> (snd (build_flag v c st) \<longrightarrow> conditions (fst (build_flag v c st)) = [])"
  using assms by (simp add: build_flag_def whereOrAnd_def)

lemma build_rest_conditions:
  "(snd st \<longrightarrow> conditions (fst st) = []) \<Longrightarrow>
   conditions (fst (build_rest rest st))
     = conditions (fst st) @ map (\<lambda>kv. PropEquals (fst kv) (snd kv)) rest"
  unfolding build_rest_def
proof (induction rest arbitrary: st)
  case Nil
  then show ?case by simp
next
  case (Cons kv rest)
  let ?st = "whereOrAnd (PropEquals (fst kv) (snd kv)) st"
  have c: "conditions (fst ?st) = conditions (fst st) @ [PropEquals (fst kv) (snd kv)]"
    and n: "\<not> snd ?st"
    using whereOrAnd_conditions [OF Cons.prems] by simp_all
  from n have "snd ?st \<longrightarrow> conditions (fst ?st) = []" by simp
  then have "conditions (fst (foldl (\<lambda>st kv. whereOrAnd (PropEquals (fst kv) (snd kv)) st) ?st rest))
      = conditions (fst ?st) @ map (\<lambda>kv. PropEquals (fst kv) (snd kv)) rest"
    by (rule Cons.IH)
  then show ?case using c by simp
qed

lemma conditions_start:
  "conditions (innerJoinAndSelect p a (createQueryBuilder b)) = []"
  by (simp add: conditions_def innerJoinAndSelect_def createQueryBuilder_def)

lemma build_name_keeps:
  assumes "(snd st \<longrightarrow> conditions (fst st) = []) \<and> filter isKeywordCondition (conditions (fst st)) = []"
  shows "(snd (build_name cfg v st) \<longrightarrow> conditions (fst (build_name cfg v st)) = [])
     \<and> filter isKeywordCondition (conditions (fst (build_name cfg v st))) = []"
  using assms by (simp add: build_name_def isKeywordCondition_def split: jsval.splits)

lemma build_rating_keeps:
  assumes "(snd st \<longrightarrow> conditions (fst st) = []) \<and> filter isKeywordCondition (conditions (fst st)) = []"
  shows "(snd (build_rating v st) \<longrightarrow> conditions (fst (build_rating v st)) = [])
     \<and> filter isKeywordCondition (conditions (fst (build_rating v st))) = []"
  using assms by (simp add: build_rating_def isKeywordCondition_def split: jsval.splits jsnumber.splits)

lemma build_preis_keeps:
  assumes "(snd st \<longrightarrow> conditions (fst st) = []) \<and> filter isKeywordCondition (conditions (fst st)) = []"
  shows "(snd (build_preis v st) \<longrightarrow> conditions (fst (build_preis v st)) = [])
     \<and> filter isKeywordCondition (conditions (fst (build_preis v st))) = []"
  using assms by (simp add: build_preis_def isKeywordCondition_def split: jsval.splits)


lemma base_keeps:
  "(snd (build_preis pv (build_rating rv (build_name cfg nv
        (innerJoinAndSelect ''spiel.name'' ''name'' (createQueryBuilder ''spiel''), True)))) \<longrightarrow>
      conditions (fst (build_preis pv (build_rating rv (build_name cfg nv
        (innerJoinAndSelect ''spiel.name'' ''name'' (createQueryBuilder ''spiel''), True))))) = [])
   \<and> filter isKeywordCondition (conditions (fst (build_preis pv (build_rating rv (build_name cfg nv
        (innerJoinAndSelect ''spiel.name'' ''name'' (createQueryBuilder ''spiel''), True)))))) = []"
proof -
  let ?st0 = "(innerJoinAndSelect ''spiel.name'' ''name'' (createQueryBuilder ''spiel''), True)"
  have "(snd ?st0 \<longrightarrow> conditions (fst ?st0) = []) \<and> filter isKeywordCondition (conditions (fst ?st0)) = []"
    by (simp add: conditions_start)
  then have "(snd (build_name cfg nv ?st0) \<longrightarrow> conditions (fst (build_name cfg nv ?st0)) = [])
     \<and> filter isKeywordCondition (conditions (fst (build_name cfg nv ?st0))) = []"
    by (rule build_name_keeps)
  then have "(snd (build_rating rv (build_name cfg nv ?st0)) \<longrightarrow>
       conditions (fst (build_rating rv (build_name cfg nv ?st0))) = [])
     \<and> filter isKeywordCondition (conditions (fst (build_rating rv (build_name cfg nv ?st0)))) = []"
    by (rule build_rating_keeps)
  then show ?thesis by (rule build_preis_keeps)
qed

lemma flags_conditions:
  assumes "snd st3 \<longrightarrow> conditions (fst st3) = []"
  shows "conditions (fst (build_rest rest
           (build_flag v4 c4 (build_flag v3 c3 (build_flag v2 c2 (build_flag v1 c1 st3))))))
         = conditions (fst st3)
           @ (if v1 = JString ''true'' then [c1] else [])
           @ (if v2 = JString ''true'' then [c2] else [])
           @ (if v3 = JString ''true'' then [c3] else [])
           @ (if v4 = JString ''true'' then [c4] else [])
           @ map (\<lambda>kv. PropEquals (fst kv) (snd kv)) rest"
proof -
  let ?st4 = "build_flag v1 c1 st3"
  let ?st5 = "build_flag v2 c2 ?st4"
  let ?st6 = "build_flag v3 c3 ?st5"
  let ?st7 = "build_flag v4 c4 ?st6"
  note f4 = build_flag_conditions [OF assms, of v1 c1]
  from f4 have i4: "snd ?st4 \<longrightarrow> conditions (fst ?st4) = []" by (rule conjunct2)
  note f5 = build_flag_conditions [OF i4, of v2 c2]
  from f5 have i5: "snd ?st5 \<longrightarrow> conditions (fst ?st5) = []" by (rule conjunct2)
  note f6 = build_flag_conditions [OF i5, of v3 c3]
  from f6 have i6: "snd ?st6 \<longrightarrow> conditions (fst ?st6) = []" by (rule conjunct2)
  note f7 = build_flag_conditions [OF i6, of v4 c4]
  from f7 have i7: "snd ?st7 \<longrightarrow> conditions (fst ?st7) = []" by (rule conjunct2)
  have "conditions (fst (build_rest rest ?st7))
      = conditions (fst ?st7) @ map (\<lambda>kv. PropEquals (fst kv) (snd kv)) rest"
    using i7 by (rule build_rest_conditions)
  also have "conditions (fst ?st7) = conditions (fst ?st6) @ (if v4 = JString ''true'' then [c4] else [])"
    using f7 by (rule conjunct1)
  also have "conditions (fst ?st6) = conditions (fst ?st5) @ (if v3 = JString ''true'' then [c3] else [])"
    using f6 by (rule conjunct1)
  also have "conditions (fst ?st5) = conditions (fst ?st4) @ (if v2 = JString ''true'' then [c2] else [])"
    using f5 by (rule conjunct1)
  also have "conditions (fst ?st4) = conditions (fst st3) @ (if v1 = JString ''true'' then [c1] else [])"
    using f4 by (rule conjunct1)
  finally show ?thesis by (simp only: append_assoc)
qed

lemma build_where_conditions:
  "conditions (build_where cfg such)
   = conditions (fst (build_preis (getProp such ''preis'') (build_rating (getProp such ''rating'')
        (build_name cfg (getProp such ''name'')
          (innerJoinAndSelect ''spiel.name'' ''name'' (createQueryBuilder ''spiel''), True)))))
     @ (if getProp such ''javascript'' = JString ''true'' then [SchlagwoerterLike ''%JAVASCRIPT%''] else [])
     @ (if getProp such ''typescript'' = JString ''true'' then [SchlagwoerterLike ''%TYPESCRIPT%''] else [])
     @ (if getProp such ''java'' = JString ''true'' then [javaCondition] else [])
     @ (if getProp such ''python'' = JString ''true'' then [SchlagwoerterLike ''%PYTHON%''] else [])
     @ map (\<lambda>kv. PropEquals (fst kv) (snd kv)) (restProps such)"
proof -
  have "snd (build_preis (getProp such ''preis'') (build_rating (getProp such ''rating'')
        (build_name cfg (getProp such ''name'')
          (innerJoinAndSelect ''spiel.name'' ''name'' (createQueryBuilder ''spiel''), True)))) \<longrightarrow>
      conditions (fst (build_preis (getProp such ''preis'') (build_rating (getProp such ''rating'')
        (build_name cfg (getProp such ''name'')
          (innerJoinAndSelect ''spiel.name'' ''name'' (createQueryBuilder ''spiel''), True))))) = []"
    using base_keeps by (rule conjunct1)
  then show ?thesis
    unfolding build_where_def Let_def by (rule flags_conditions)
qed

lemma keyword_conditions_exact:
  "filter isKeywordCondition (conditions (build cfg such pageable))
   = (if getProp such ''javascript'' = JString ''true'' then [SchlagwoerterLike ''%JAVASCRIPT%''] else [])
     @ (if getProp such ''typescript'' = JString ''true'' then [SchlagwoerterLike ''%TYPESCRIPT%''] else [])
     @ (if getProp such ''java'' = JString ''true'' then [javaCondition] else [])
     @ (if getProp such ''python'' = JString ''true'' then [SchlagwoerterLike ''%PYTHON%''] else [])"
proof -
  have r: "filter isKeywordCondition (map (\<lambda>kv. PropEquals (fst kv) (snd kv)) (restProps such)) = []"
    by (induction "restProps such") (auto simp: isKeywordCondition_def filter_empty_conv)
  have b: "filter isKeywordCondition (conditions (fst (build_preis (getProp such ''preis'')
        (build_rating (getProp such ''rating'') (build_name cfg (getProp such ''name'')
          (innerJoinAndSelect ''spiel.name'' ''name'' (createQueryBuilder ''spiel''), True)))))) = []"
    using base_keeps by (rule conjunct2)
  show ?thesis
    unfolding conditions_build build_where_conditions filter_append r b
    by (simp add: isKeywordCondition_def javaCondition_def)
qed


lemma flag_only_getProp:
  assumes "set (map fst such) \<subseteq> {''javascript'', ''typescript'', ''java'', ''python''}"
    and "k \<notin> {''javascript'', ''typescript'', ''java'', ''python''}"
  shows "getProp such k = JUndefined"
proof -
  have "k \<notin> fst ` set such" using assms by auto
  then have "map_of such k = None" by (simp add: map_of_eq_None_iff)
  then show ?thesis by (simp add: getProp_def)
qed

lemma flag_only_restProps:
  assumes "set (map fst such) \<subseteq> {''javascript'', ''typescript'', ''java'', ''python''}"
  shows "restProps such = []"
  using assms by (auto simp: restProps_def destructured_def filter_empty_conv)

lemma flag_only_conditions:
  assumes "set (map fst such) \<subseteq> {''javascript'', ''typescript'', ''java'', ''python''}"
  shows "conditions (build cfg such pageable)
   = (if getProp such ''javascript'' = JString ''true'' then [SchlagwoerterLike ''%JAVASCRIPT%''] else [])
     @ (if getProp such ''typescript'' = JString ''true'' then [SchlagwoerterLike ''%TYPESCRIPT%''] else [])
     @ (if getProp such ''java'' = JString ''true'' then [javaCondition] else [])
     @ (if getProp such ''python'' = JString ''true'' then [SchlagwoerterLike ''%PYTHON%''] else [])"
proof -
  have n: "getProp such ''name'' = JUndefined" using assms by (rule flag_only_getProp) simp
  have r: "getProp such ''rating'' = JUndefined" using assms by (rule flag_only_getProp) simp
  have p: "getProp such ''preis'' = JUndefined" using assms by (rule flag_only_getProp) simp
  have b: "conditions (fst (build_preis JUndefined (build_rating JUndefined (build_name cfg JUndefined
          (innerJoinAndSelect ''spiel.name'' ''name'' (createQueryBuilder ''spiel''), True))))) = []"
    by (simp add: build_preis_def build_rating_def build_name_def conditions_start)
  show ?thesis
    unfolding conditions_build build_where_conditions n r p b flag_only_restProps [OF assms]
    by simp
qed

lemma flag_only_where:
  assumes "set (map fst such) \<subseteq> {''javascript'', ''typescript'', ''java'', ''python''}"
  shows "whereHolds PostgreSQL (build cfg such pageable) (Some t)
   = Some ((getProp such ''javascript'' = JString ''true'' \<longrightarrow> sublist ''JAVASCRIPT'' t)
         \<and> (getProp such ''typescript'' = JString ''true'' \<longrightarrow> sublist ''TYPESCRIPT'' t)
         \<and> (getProp such ''java'' = JString ''true'' \<longrightarrow>
              sublist ''JAVA'' (replace_all ''JAVASCRIPT'' [] t))
         \<and> (getProp such ''python'' = JString ''true'' \<longrightarrow> sublist ''PYTHON'' t))"
proof -
  have js: "keywordConditionHolds PostgreSQL (SchlagwoerterLike ''%JAVASCRIPT%'') (Some t)
       = Some (sublist ''JAVASCRIPT'' t)"
    using keyword_like [of "''JAVASCRIPT''" t] by simp
  have ts: "keywordConditionHolds PostgreSQL (SchlagwoerterLike ''%TYPESCRIPT%'') (Some t)
       = Some (sublist ''TYPESCRIPT'' t)"
    using keyword_like [of "''TYPESCRIPT''" t] by simp
  have py: "keywordConditionHolds PostgreSQL (SchlagwoerterLike ''%PYTHON%'') (Some t)
       = Some (sublist ''PYTHON'' t)"
    using keyword_like [of "''PYTHON''" t] by simp
  have k: "isKeywordCondition (SchlagwoerterLike ''%JAVASCRIPT%'')"
    "isKeywordCondition (SchlagwoerterLike ''%TYPESCRIPT%'')"
    "isKeywordCondition (SchlagwoerterLike ''%PYTHON%'')"
    "isKeywordCondition javaCondition"
    by (simp_all add: isKeywordCondition_def javaCondition_def)
  show ?thesis
    unfolding whereHolds_def flag_only_conditions [OF assms]
    by (simp add: js ts py keyword_java k)
qed

lemma java_only_conditions:
  "conditions (build cfg [(''java'', JString ''true'')] pageable) = [javaCondition]"
  using flag_only_conditions [of "[(''java'', JString ''true'')]" cfg pageable]
  by (simp add: getProp_def)

lemma java_only_where:
  "whereHolds d (build cfg [(''java'', JString ''true'')] pageable) col
   = keywordConditionHolds d javaCondition col"
  unfolding whereHolds_def java_only_conditions
  by (simp add: isKeywordCondition_def javaCondition_def keywordConditionHolds_def)

text \<open>
  Claim C9, as the code has it. In the query that \<open>build\<close> produces, the keyword
  conditions are exactly those of the flags that are \<open>'true'\<close>, in the order
  javascript, typescript, java, python, whatever the other criteria are; a search for
  java alone has the java condition and no other. On PostgreSQL, a row satisfies the
  WHERE clause of a search by keyword flags alone exactly when, for each flag that is
  \<open>'true'\<close>, the keyword, compared character by character, is a part of the stored
  text, where for java the text is taken with every JAVASCRIPT removed. So a java search
  on PostgreSQL selects a row whose keywords include JAVA, whatever its other keywords
  are, and does not select a row of which no keyword but JAVASCRIPT has JAVA as a part.
\<close>

theorem keyword_flags:
  "filter isKeywordCondition (conditions (build cfg such pageable))
     = (if getProp such ''javascript'' = JString ''true'' then [SchlagwoerterLike ''%JAVASCRIPT%''] else [])
       @ (if getProp such ''typescript'' = JString ''true'' then [SchlagwoerterLike ''%TYPESCRIPT%''] else [])
       @ (if getProp such ''java'' = JString ''true'' then [javaCondition] else [])
       @ (if getProp such ''python'' = JString ''true'' then [SchlagwoerterLike ''%PYTHON%''] else [])
   \<and> (set (map fst such) \<subseteq> {''javascript'', ''typescript'', ''java'', ''python''} \<longrightarrow>
        whereHolds PostgreSQL (build cfg such pageable) (Some t)
        = Some ((getProp such ''javascript'' = JString ''true'' \<longrightarrow> sublist ''JAVASCRIPT'' t)
              \<and> (getProp such ''typescript'' = JString ''true'' \<longrightarrow> sublist ''TYPESCRIPT'' t)
              \<and> (getProp such ''java'' = JString ''true'' \<longrightarrow>
                   sublist ''JAVA'' (replace_all ''JAVASCRIPT'' [] t))
              \<and> (getProp such ''python'' = JString ''true'' \<longrightarrow> sublist ''PYTHON'' t)))
   \<and> keywordConditionHolds PostgreSQL (SchlagwoerterLike ''%JAVASCRIPT%'') (Some t)
       = Some (sublist ''JAVASCRIPT'' t)
   \<and> keywordConditionHolds PostgreSQL (SchlagwoerterLike ''%TYPESCRIPT%'') (Some t)
       = Some (sublist ''TYPESCRIPT'' t)
   \<and> keywordConditionHolds PostgreSQL (SchlagwoerterLike ''%PYTHON%'') (Some t)
       = Some (sublist ''PYTHON'' t)
   \<and> keywordConditionHolds PostgreSQL javaCondition (Some t)
       = Some (sublist ''JAVA'' (replace_all ''JAVASCRIPT'' [] t))
   \<and> conditions (build cfg [(''java'', JString ''true'')] pageable) = [javaCondition]
   \<and> (schlagwoerter s = Value ks \<and> ''JAVA'' \<in> set ks \<longrightarrow>
        whereHolds PostgreSQL (build cfg [(''java'', JString ''true'')] pageable)
          (schlagwoerterColumn s) = Some True)
   \<and> (schlagwoerter s = Value ks \<and> (\<forall>k \<in> set ks. k = ''JAVASCRIPT'' \<or> \<not> sublist ''JAVA'' k) \<longrightarrow>
        whereHolds PostgreSQL (build cfg [(''java'', JString ''true'')] pageable)
          (schlagwoerterColumn s) = Some False)"
proof -
  have pos: "schlagwoerter s = Value ks \<and> ''JAVA'' \<in> set ks \<longrightarrow>
        whereHolds PostgreSQL (build cfg [(''java'', JString ''true'')] pageable)
          (schlagwoerterColumn s) = Some True"
    using java_keyword_matches [of ks] by (simp add: java_only_where schlagwoerterColumn_def)
  have neg: "schlagwoerter s = Value ks \<and> (\<forall>k \<in> set ks. k = ''JAVASCRIPT'' \<or> \<not> sublist ''JAVA'' k) \<longrightarrow>
        whereHolds PostgreSQL (build cfg [(''java'', JString ''true'')] pageable)
          (schlagwoerterColumn s) = Some False"
    using java_only_javascript [of ks] by (simp add: java_only_where schlagwoerterColumn_def)
  have js: "keywordConditionHolds PostgreSQL (SchlagwoerterLike ''%JAVASCRIPT%'') (Some t)
       = Some (sublist ''JAVASCRIPT'' t)"
    using keyword_like [of "''JAVASCRIPT''" t] by simp
  have ts: "keywordConditionHolds PostgreSQL (SchlagwoerterLike ''%TYPESCRIPT%'') (Some t)
       = Some (sublist ''TYPESCRIPT'' t)"
    using keyword_like [of "''TYPESCRIPT''" t] by simp
  have py: "keywordConditionHolds PostgreSQL (SchlagwoerterLike ''%PYTHON%'') (Some t)
       = Some (sublist ''PYTHON'' t)"
    using keyword_like [of "''PYTHON''" t] by simp
  show ?thesis
    using keyword_conditions_exact [of cfg such pageable] flag_only_where [of such cfg pageable t]
      java_only_conditions [of cfg pageable] js ts py keyword_java [of t] pos neg
    by blast
qed

theorem keyword_flags_witness:
  "set (map fst [(''python'', JString ''false''), (''java'', JString ''true'')])
     \<subseteq> {''javascript'', ''typescript'', ''java'', ''python''}
   \<and> filter isKeywordCondition (conditions (build exampleConfig
        [(''name'', JString ''a''), (''python'', JString ''false''), (''java'', JString ''true'')] None))
       = [javaCondition]
   \<and> whereHolds PostgreSQL
        (build exampleConfig [(''python'', JString ''false''), (''java'', JString ''true'')] None)
        (Some ''JAVA,JAVASCRIPT'') = Some True
   \<and> whereHolds PostgreSQL
        (build exampleConfig [(''python'', JString ''false''), (''java'', JString ''true'')] None)
        (Some ''JAVASCRIPT,PYTHON'') = Some False
   \<and> whereHolds PostgreSQL
        (build exampleConfig [(''python'', JString ''false''), (''java'', JString ''true'')] None)
        (Some ''java'') = Some False
   \<and> whereHolds PostgreSQL
        (build exampleConfig [(''python'', JString ''true''), (''javascript'', JString ''true'')] None)
        (Some ''JAVASCRIPT,PYTHON'') = Some True
   \<and> whereHolds PostgreSQL
        (build exampleConfig [(''python'', JString ''true''), (''javascript'', JString ''true'')] None)
        (Some ''JAVASCRIPT,Python'') = Some False
   \<and> schlagwoerter (exampleSpiel ''1'') = Value [''JAVA'', ''JAVASCRIPT'']
   \<and> whereHolds PostgreSQL (build exampleConfig [(''java'', JString ''true'')] None)
        (schlagwoerterColumn (exampleSpiel ''1'')) = Some True
   \<and> whereHolds PostgreSQL (build exampleConfig [(''java'', JString ''true'')] None)
        (schlagwoerterColumn ((exampleSpiel ''1'')\<lparr>schlagwoerter := Value [''JAVASCRIPT'', ''PYTHON'']\<rparr>))
       = Some False"
  using keyword_flags [where such = "[(''name'', JString ''a''), (''python'', JString ''false''), (''java'', JString ''true'')]"
      and cfg = exampleConfig and pageable = None and t = "[]" and s = "exampleSpiel ''1''"
      and ks = "[''JAVA'', ''JAVASCRIPT'']"]
    keyword_flags [where such = "[(''python'', JString ''false''), (''java'', JString ''true'')]"
      and cfg = exampleConfig and pageable = None and t = "''JAVA,JAVASCRIPT''"
      and s = "(exampleSpiel ''1'')\<lparr>schlagwoerter := Value [''JAVASCRIPT'', ''PYTHON'']\<rparr>"
      and ks = "[''JAVASCRIPT'', ''PYTHON'']"]
    keyword_flags [where such = "[(''python'', JString ''false''), (''java'', JString ''true'')]"
      and cfg = exampleConfig and pageable = None and t = "''JAVASCRIPT,PYTHON''"
      and s = "exampleSpiel ''1''" and ks = "[]"]
    keyword_flags [where such = "[(''python'', JString ''false''), (''java'', JString ''true'')]"
      and cfg = exampleConfig and pageable = None and t = "''java''"
      and s = "exampleSpiel ''1''" and ks = "[]"]
    keyword_flags [where such = "[(''python'', JString ''true''), (''javascript'', JString ''true'')]"
      and cfg = exampleConfig and pageable = None and t = "''JAVASCRIPT,PYTHON''"
      and s = "exampleSpiel ''1''" and ks = "[]"]
    keyword_flags [where such = "[(''python'', JString ''true''), (''javascript'', JString ''true'')]"
      and cfg = exampleConfig and pageable = None and t = "''JAVASCRIPT,Python''"
      and s = "exampleSpiel ''1''" and ks = "[]"]
  by (simp add: getProp_def exampleSpiel_def replace_all.simps sublist_Cons_right)

theorem keyword_flags_counterexample:
  "whereHolds SQLite (build (exampleConfig\<lparr>postgres := False\<rparr>) [(''java'', JString ''true'')] None)
      (schlagwoerterColumn ((exampleSpiel ''1'')\<lparr>schlagwoerter := Value [''java'']\<rparr>)) = Some True
   \<and> \<not> sublist ''JAVA'' (replace_all ''JAVASCRIPT'' [] ''java'')"
  unfolding java_only_where
  by (simp add: schlagwoerterColumn_def exampleSpiel_def keywordConditionHolds_def javaCondition_def
      likeOf_def asciiLower_def replace_all.simps sublist_Cons_right)

section \<open>Properties of the read service\<close>

lemma checkKeys_foldl_False:
  "foldl (\<lambda>validKeys key.
              if key \<notin> set spielProps \<and> key \<noteq> ''javascript'' \<and> key \<noteq> ''typescript''
                 \<and> key \<noteq> ''java'' \<and> key \<noteq> ''python''
              then False else validKeys) False keys = False"
  by (induction keys) simp_all

lemma checkKeys_iff:
  "checkKeys keys \<longleftrightarrow>
   list_all (\<lambda>key. key \<in> set spielProps \<or> key = ''javascript'' \<or> key = ''typescript''
                 \<or> key = ''java'' \<or> key = ''python'') keys"
  unfolding checkKeys_def
proof (induction keys)
  case Nil
  then show ?case by simp
next
  case (Cons k keys)
  then show ?case using checkKeys_foldl_False [of keys] by (simp del: set_simps)
qed

text \<open>
  Claim C5. A criteria object with a key that is neither a property of the entity Spiel
  nor one of the keyword flags javascript, typescript, java and python makes \<open>find\<close>
  fail with the not-found failure, and no query is run: the list of database calls is
  empty. (Such an object has a key, so it is not empty.)
\<close>

theorem find_unknown_key:
  assumes "k \<in> set (map fst such)"
    and "k \<notin> set spielProps"
    and "k \<notin> {''javascript'', ''typescript'', ''java'', ''python''}"
  shows "find_spiele ex cfg (Some such) pageable
         = (Inl (NotFoundException UngueltigeSuchkriterien), [])"
proof -
  have "\<not> checkKeys (map fst such)"
    using assms unfolding checkKeys_iff list_all_iff by blast
  moreover have "map fst such \<noteq> []" using assms(1) by auto
  ultimately show ?thesis by (simp add: find_spiele_def Let_def)
qed

theorem find_unknown_key_witness:
  "''foo'' \<in> set (map fst [(''rating'', JString ''4''), (''foo'', JString ''bar'')])
   \<and> ''foo'' \<notin> set spielProps
   \<and> find_spiele exampleExecutor exampleConfig
        (Some [(''rating'', JString ''4''), (''foo'', JString ''bar'')])
        \<lparr>number = Some 0, size_p = Some 5\<rparr>
      = (Inl (NotFoundException UngueltigeSuchkriterien), [])"
  using find_unknown_key [of "''foo''" "[(''rating'', JString ''4''), (''foo'', JString ''bar'')]"
      exampleExecutor exampleConfig "\<lparr>number = Some 0, size_p = Some 5\<rparr>"]
  by (simp add: spielProps_def)

text \<open>
  Claim C10. A criteria object whose \<open>art\<close> is one of the categories of the entity
  (BRETTSPIEL, COMPUTERSPIEL, ACTIONSPIEL) makes \<open>find\<close> fail with the not-found
  failure for invalid criteria, before any query is run: \<open>checkEnums\<close> accepts only
  EPUB, HARDCOVER and PAPERBACK.
\<close>

theorem find_art_of_entity_rejected:
  assumes "getProp such ''art'' = JString a"
    and "a \<in> {''BRETTSPIEL'', ''COMPUTERSPIEL'', ''ACTIONSPIEL''}"
  shows "find_spiele ex cfg (Some such) pageable
         = (Inl (NotFoundException UngueltigeSuchkriterien), [])"
proof -
  have "such \<noteq> []" using assms(1) by (auto simp: getProp_def)
  moreover have "\<not> checkEnums such"
    using assms by (auto simp: checkEnums_def Let_def)
  ultimately show ?thesis by (simp add: find_spiele_def Let_def)
qed

theorem find_art_of_entity_rejected_witness:
  "getProp [(''art'', JString ''BRETTSPIEL'')] ''art'' = JString ''BRETTSPIEL''
   \<and> find_spiele exampleExecutor exampleConfig (Some [(''art'', JString ''BRETTSPIEL'')])
        \<lparr>number = Some 0, size_p = Some 5\<rparr>
      = (Inl (NotFoundException UngueltigeSuchkriterien), [])
   \<and> find_spiele exampleExecutor exampleConfig
        (Some [(''name'', JString ''a''), (''art'', JString ''ACTIONSPIEL'')])
        \<lparr>number = Some 0, size_p = Some 5\<rparr>
      = (Inl (NotFoundException UngueltigeSuchkriterien), [])"
  using find_art_of_entity_rejected [of "[(''art'', JString ''BRETTSPIEL'')]" "''BRETTSPIEL''"
      exampleExecutor exampleConfig "\<lparr>number = Some 0, size_p = Some 5\<rparr>"]
    find_art_of_entity_rejected [of "[(''name'', JString ''a''), (''art'', JString ''ACTIONSPIEL'')]"
      "''ACTIONSPIEL''" exampleExecutor exampleConfig "\<lparr>number = Some 0, size_p = Some 5\<rparr>"]
  by (simp add: getProp_def)

section \<open>Properties of the write service\<close>

lemma findById_findRow:
  "findById db i m =
     (case findRow db i of
        None \<Rightarrow> Inl (NotFoundException (KeinSpielMitId (Some i)))
      | Some s \<Rightarrow>
          if name s = None then Inl (NotFoundException (KeinSpielMitId (Some i)))
          else Inr (nullToEmpty (if m then s else s\<lparr>bilder := None\<rparr>)))"
  by (simp add: findById_def getOne_def buildId_def Let_def conditions_def where_qb_def
      leftJoinAndSelect_def innerJoinAndSelect_def createQueryBuilder_def
      split: option.splits)

lemma findRow_id: "findRow db i = Some s \<Longrightarrow> id_Spiel s = Some i"
  unfolding findRow_def by (auto simp: find_Some_iff)

lemma findRow_mem: "findRow db i = Some s \<Longrightarrow> s \<in> set (spiel_table db)"
  unfolding findRow_def by (auto simp: find_Some_iff)

lemma natToString_1000: "natToString 1000 = ''1000''"
  by code_simp


lemma oneSpiel_eq:
  "oneSpiel =
     \<lparr>spiel_table =
        [(exampleSpiel ''1'')\<lparr>id_Spiel := Some 1000, version := Some 0,
           name := Some \<lparr>id_Name = Some 1000, name_Name = ''Alpha'', untertitel = None\<rparr>,
           bilder := Some []\<rparr>],
      spiel_id_seq = 1001, name_id_seq = 1001, bild_id_seq = 1000,
      effects = [InsertSpiel 1000,
        Sendmail ''Neues Spiel 1000'' ''Das Spiel mit dem Name <strong>Alpha</strong> ist angelegt'']\<rparr>"
  by (simp add: oneSpiel_def create_def validateCreate_def existsBy_barcode_def init_database_def
      save_def insertSpiel_def Let_def exampleSpiel_def numberBilder_def sendmail_def idToString_def
      natToString_1000)


text \<open>
  Claim C2. Deleting an id that no item has does not return false: \<open>delete\<close> first calls
  \<open>findById\<close>, which fails with the not-found failure. The same happens when an item
  that was just deleted is deleted a second time.
\<close>

theorem delete_missing_id_fails:
  "delete init_database 1 = (Inl (NotFoundException (KeinSpielMitId (Some 1))), init_database)
   \<and> fst (delete oneSpiel 1000) = Inr True
   \<and> fst (delete (snd (delete oneSpiel 1000)) 1000)
       = Inl (NotFoundException (KeinSpielMitId (Some 1000)))"
  by (simp add: delete_def findById_findRow findRow_def init_database_def oneSpiel_eq
      exampleSpiel_def nullToEmpty_def Let_def deleteName_def deleteSpielRow_def)


subsection \<open>Create\<close>





subsection \<open>Version tokens\<close>

lemma upt_1_4: "[1..<Suc 3] = [1, 2, 3]"
  by (simp add: upt_rec)

lemma VERSION_PATTERN_quoted:
  assumes "ds \<noteq> []" and "length ds \<le> 3" and "list_all isDecimalDigit ds"
  shows "matchesAtStart VERSION_PATTERN (quoted ds @ rest)"
proof -
  have k: "length ds \<in> set [1..<Suc 3]" using assms(1,2) by (cases ds) auto
  have "length ds \<le> length (ds @ CHR 0x22 # rest)
        \<and> list_all (atomMatches Digit) (take (length ds) (ds @ CHR 0x22 # rest))
        \<and> matchesAtStart [One (Literal (CHR 0x22))] (drop (length ds) (ds @ CHR 0x22 # rest))"
    using assms(3) by (simp add: atomMatches_def list_all_iff)
  then have "list_ex (\<lambda>k. k \<le> length (ds @ CHR 0x22 # rest)
        \<and> list_all (atomMatches Digit) (take k (ds @ CHR 0x22 # rest))
        \<and> matchesAtStart [One (Literal (CHR 0x22))] (drop k (ds @ CHR 0x22 # rest))) [1..<Suc 3]"
    using k unfolding list_ex_iff by blast
  then show ?thesis
    by (simp add: VERSION_PATTERN_def quoted_def atomMatches_def)
qed

lemma VERSION_PATTERN_only_quoted:
  assumes "matchesAtStart VERSION_PATTERN s"
  shows "\<exists>ds rest. s = quoted ds @ rest \<and> ds \<noteq> [] \<and> length ds \<le> 3 \<and> list_all isDecimalDigit ds"
proof (cases s)
  case Nil
  then show ?thesis using assms by (simp add: VERSION_PATTERN_def)
next
  case (Cons c r)
  have c: "c = CHR 0x22"
    using assms Cons by (simp add: VERSION_PATTERN_def atomMatches_def)
  have "list_ex (\<lambda>k. k \<le> length r \<and> list_all (atomMatches Digit) (take k r)
        \<and> matchesAtStart [One (Literal (CHR 0x22))] (drop k r)) [1..<Suc 3]"
    using assms Cons by (simp add: VERSION_PATTERN_def atomMatches_def)
  then obtain k where k: "k \<in> set [1..<Suc 3]" "k \<le> length r"
      "list_all (atomMatches Digit) (take k r)"
      "matchesAtStart [One (Literal (CHR 0x22))] (drop k r)"
    unfolding list_ex_iff by blast
  from k(4) obtain rest where rest: "drop k r = CHR 0x22 # rest"
    by (cases "drop k r") (auto simp: atomMatches_def)
  have "r = take k r @ CHR 0x22 # rest" using rest by (metis append_take_drop_id)
  then have "s = quoted (take k r) @ rest" using Cons c by (simp add: quoted_def)
  moreover have "take k r \<noteq> []" using k(1,2) by auto
  moreover have "length (take k r) \<le> 3" using k(1) by auto
  moreover have "list_all isDecimalDigit (take k r)"
    using k(3) by (simp add: atomMatches_def list_all_iff)
  ultimately show ?thesis by blast
qed

lemma save_error: "save db s = (Inl e, db1) \<Longrightarrow> \<exists>c. e = QueryFailedError c"
  by (auto simp: save_def insertSpiel_def updateSpiel_def Let_def split: option.splits if_splits)

lemma update_invalid:
  "\<not> matchesAtStart VERSION_PATTERN v \<Longrightarrow>
   update db (Some i) spiel v = (Inl (VersionInvalidException v), db)"
  by (simp add: update_def validateUpdate_def)

lemma validateUpdate_not_invalid:
  "matchesAtStart VERSION_PATTERN v \<Longrightarrow> validateUpdate db spiel i v \<noteq> Inl (VersionInvalidException w)"
  by (simp add: validateUpdate_def Let_def findById_findRow split: option.splits)

lemma update_not_invalid:
  assumes "matchesAtStart VERSION_PATTERN v"
  shows "fst (update db (Some i) spiel v) \<noteq> Inl (VersionInvalidException w)"
proof (cases "validateUpdate db spiel i v")
  case (Inl e)
  then show ?thesis using validateUpdate_not_invalid [OF assms, of db spiel i w]
    by (simp add: update_def)
next
  case (Inr spielNeu)
  obtain r db1 where s: "save db (merge spielNeu spiel) = (r, db1)" by (cases "save db (merge spielNeu spiel)")
  show ?thesis
  proof (cases r)
    case (Inl e)
    then show ?thesis using save_error [of db "merge spielNeu spiel" e db1] s Inr
      by (auto simp: update_def)
  next
    case (Inr u)
    then show ?thesis using s \<open>validateUpdate db spiel i v = Inr spielNeu\<close>
      by (simp add: update_def)
  qed
qed


lemma parseInt_digits:
  assumes "ds \<noteq> []" and "list_all isDecimalDigit ds"
  shows "parseInt ds (Some 10) = Num (decimalValue ds)"
proof -
  have d: "\<And>c. c \<in> set ds \<Longrightarrow> isDecimalDigit c" using assms(2) by (simp add: list_all_iff)
  obtain c cs where cs: "ds = c # cs" using assms(1) by (cases ds) auto
  have hd: "isDecimalDigit c" using d cs by simp
  have w: "dropWhile isWhiteSpace ds = ds"
    using hd cs by (auto simp: isWhiteSpace_def isDecimalDigit_def)
  have sign: "c \<noteq> CHR ''+''" "c \<noteq> CHR ''-''"
    using hd by (auto simp: isDecimalDigit_def)
  have r: "\<And>c. c \<in> set ds \<Longrightarrow> isRadixDigit 10 c"
  proof -
    fix c assume "c \<in> set ds"
    then have "isDecimalDigit c" by (rule d)
    then show "isRadixDigit 10 c"
      by (auto simp: isRadixDigit_def digitValue_def isDecimalDigit_def Let_def)
  qed
  have t: "takeWhile (isRadixDigit 10) ds = ds" using r by (simp add: takeWhile_eq_all_conv)
  have v: "\<And>c. c \<in> set ds \<Longrightarrow>
      int (case digitValue c of None \<Rightarrow> 0 | Some d \<Rightarrow> d) = int (of_char c) - 48"
  proof -
    fix c assume "c \<in> set ds"
    then have "isDecimalDigit c" by (rule d)
    then show "int (case digitValue c of None \<Rightarrow> 0 | Some d \<Rightarrow> d) = int (of_char c) - 48"
      by (auto simp: digitValue_def isDecimalDigit_def Let_def)
  qed
  have "\<And>a. foldl (\<lambda>acc c. acc * int 10 + int (case digitValue c of None \<Rightarrow> 0 | Some d \<Rightarrow> d)) a ds
      = foldl (\<lambda>acc c. acc * 10 + (int (of_char c) - 48)) a ds"
    using v by (intro foldl_cong) auto
  then have rv: "radixValue 10 ds = decimalValue ds"
    by (simp add: radixValue_def decimalValue_def)
  show ?thesis
    using w sign t rv assms(1) cs by (simp add: parseInt_def Let_def)
qed

lemma slice_quoted: "slice (quoted ds) 1 (- 1) = ds"
  by (simp add: slice_def quoted_def Let_def)

text \<open>
  Claim C3, as the code has it. The invalid-version failure, with the database left as
  it was, is the result for every token that does not begin with a double quote, one to
  three decimal digits and a double quote. A token that is exactly one to three decimal
  digits between double quotes never gets that failure. (The pattern admits at most three
  digits.)
\<close>

theorem update_version_pattern:
  "(ds \<noteq> [] \<and> length ds \<le> 3 \<and> list_all isDecimalDigit ds \<longrightarrow>
      (\<forall>w. fst (update db (Some i) spiel (quoted ds)) \<noteq> Inl (VersionInvalidException w)))
   \<and> (\<not> (\<exists>digits rest. versionStr = quoted digits @ rest \<and> digits \<noteq> [] \<and> length digits \<le> 3
             \<and> list_all isDecimalDigit digits) \<longrightarrow>
      update db (Some i) spiel versionStr = (Inl (VersionInvalidException versionStr), db))"
proof (intro conjI impI allI)
  fix w
  assume "ds \<noteq> [] \<and> length ds \<le> 3 \<and> list_all isDecimalDigit ds"
  then have "matchesAtStart VERSION_PATTERN (quoted ds)"
    using VERSION_PATTERN_quoted [of ds "[]"] by simp
  then show "fst (update db (Some i) spiel (quoted ds)) \<noteq> Inl (VersionInvalidException w)"
    by (rule update_not_invalid)
next
  assume "\<not> (\<exists>digits rest. versionStr = quoted digits @ rest \<and> digits \<noteq> [] \<and> length digits \<le> 3
             \<and> list_all isDecimalDigit digits)"
  then have "\<not> matchesAtStart VERSION_PATTERN versionStr"
    using VERSION_PATTERN_only_quoted by blast
  then show "update db (Some i) spiel versionStr = (Inl (VersionInvalidException versionStr), db)"
    by (rule update_invalid)
qed

theorem update_version_pattern_witness:
  "list_all isDecimalDigit ''0''
   \<and> fst (update oneSpiel (Some 1000) (exampleUpdate ''1'') (quoted ''0'')) = Inr (Some 1)
   \<and> update oneSpiel (Some 1000) (exampleUpdate ''1'') ''0''
       = (Inl (VersionInvalidException ''0''), oneSpiel)
   \<and> update oneSpiel (Some 1000) (exampleUpdate ''1'') (CHR 0x22 # ''abc'')
       = (Inl (VersionInvalidException (CHR 0x22 # ''abc'')), oneSpiel)"
proof -
  have m: "matchesAtStart VERSION_PATTERN (quoted ''0'')"
    using VERSION_PATTERN_quoted [of "''0''" "[]"] by (simp add: isDecimalDigit_def)
  have p: "parseInt ''0'' (Some 10) = Num 0"
    using parseInt_digits [of "''0''"] by (simp add: isDecimalDigit_def decimalValue_def)
  have ok: "fst (update oneSpiel (Some 1000) (exampleUpdate ''1'') (quoted ''0'')) = Inr (Some 1)"
    by (simp add: update_def validateUpdate_def m slice_quoted p Let_def findById_findRow
        findRow_def oneSpiel_eq exampleSpiel_def exampleUpdate_def nullToEmpty_def
        lessThanVersion_def merge_def orElse_def mergeName_def save_def updateSpiel_def)
  have n1: "\<not> (\<exists>digits rest. ''0'' = quoted digits @ rest \<and> digits \<noteq> [] \<and> length digits \<le> 3
             \<and> list_all isDecimalDigit digits)"
    by (simp add: quoted_def)
  have n2: "\<not> (\<exists>digits rest. CHR 0x22 # ''abc'' = quoted digits @ rest \<and> digits \<noteq> []
             \<and> length digits \<le> 3 \<and> list_all isDecimalDigit digits)"
    by (auto simp: quoted_def Cons_eq_append_conv isDecimalDigit_def)
  show ?thesis
    using update_version_pattern [of "''0''" oneSpiel 1000 "exampleUpdate ''1''" "''0''"]
      update_version_pattern [of "''0''" oneSpiel 1000 "exampleUpdate ''1''" "CHR 0x22 # ''abc''"]
      ok n1 n2
    by (simp add: isDecimalDigit_def)
qed

theorem update_version_pattern_counterexample:
  "fst (update oneSpiel (Some 1000) (exampleUpdate ''1'') (quoted ''1234''))
     = Inl (VersionInvalidException (quoted ''1234''))
   \<and> fst (update oneSpiel (Some 1000) (exampleUpdate ''1'') (quoted ''0'' @ ''abc'')) = Inr (Some 1)"
proof -
  have m: "matchesAtStart VERSION_PATTERN (quoted ''0'' @ ''abc'')"
    using VERSION_PATTERN_quoted [of "''0''" "''abc''"] by (simp add: isDecimalDigit_def)
  have n: "\<not> matchesAtStart VERSION_PATTERN (quoted ''1234'')"
    by code_simp
  have p: "parseInt (slice (quoted ''0'' @ ''abc'') 1 (- 1)) (Some 10) = Num 0"
    by (simp add: slice_def quoted_def Let_def parseInt_def isWhiteSpace_def isRadixDigit_def
        digitValue_def radixValue_def)
  have "fst (update oneSpiel (Some 1000) (exampleUpdate ''1'') (quoted ''0'' @ ''abc'')) = Inr (Some 1)"
    by (simp add: update_def validateUpdate_def m p Let_def findById_findRow
        findRow_def oneSpiel_eq exampleSpiel_def exampleUpdate_def nullToEmpty_def
        lessThanVersion_def merge_def orElse_def mergeName_def save_def updateSpiel_def)
  then show ?thesis using n by (simp add: update_invalid)
qed

subsection \<open>Version check\<close>

lemma update_outdated_or_saved:
  assumes "findById db i False = Inr spielDb"
    and "ds \<noteq> []" and "length ds \<le> 3" and "list_all isDecimalDigit ds"
  shows "update db (Some i) spiel (quoted ds) =
     (if lessThanVersion (Num (decimalValue ds)) (version spielDb)
      then (Inl (VersionOutdatedException (Num (decimalValue ds))), db)
      else (case save db (merge spielDb spiel) of
              (Inl e, db1) \<Rightarrow> (Inl e, db1)
            | (Inr updated, db1) \<Rightarrow> (Inr (version updated), db1)))"
proof -
  have m: "matchesAtStart VERSION_PATTERN (quoted ds)"
    using VERSION_PATTERN_quoted [OF assms(2,3,4), of "[]"] by simp
  have p: "parseInt (slice (quoted ds) 1 (- 1)) (Some 10) = Num (decimalValue ds)"
    using parseInt_digits [OF assms(2,4)] by (simp add: slice_quoted)
  show ?thesis
    by (simp add: update_def validateUpdate_def m p assms(1) Let_def)
qed




lemma decimalValue_0: "decimalValue ''0'' = 0"
  by (simp add: decimalValue_def)

lemma digits_0: "list_all isDecimalDigit ''0''"
  by (simp add: isDecimalDigit_def)

lemma findRow_oneSpiel:
  "findRow oneSpiel 1000 = Some ((exampleSpiel ''1'')\<lparr>id_Spiel := Some 1000, version := Some 0,
      name := Some \<lparr>id_Name = Some 1000, name_Name = ''Alpha'', untertitel = None\<rparr>,
      bilder := Some []\<rparr>)"
  by (simp add: findRow_def oneSpiel_eq exampleSpiel_def)

lemma findById_oneSpiel:
  "findById oneSpiel 1000 False = Inr ((exampleSpiel ''1'')\<lparr>id_Spiel := Some 1000, version := Some 0,
      name := Some \<lparr>id_Name = Some 1000, name_Name = ''Alpha'', untertitel = None\<rparr>,
      bilder := None\<rparr>)"
  by (simp add: findById_findRow findRow_oneSpiel nullToEmpty_def exampleSpiel_def)

lemma updatedOnce_eq:
  "updatedOnce =
     \<lparr>spiel_table =
        [\<lparr>id_Spiel = Some 1000, version = Some 1, barcode = ''5'', rating = Some 5,
          art = Some BRETTSPIEL, preis = 20, rabatt = Some 0, lieferbar = Some True, datum = None,
          homepage = None, schlagwoerter = Value [''JAVA'', ''JAVASCRIPT''],
          name = Some \<lparr>id_Name = Some 1000, name_Name = ''Alpha'', untertitel = None\<rparr>,
          bilder = Some [], erzeugt = Some 1, aktualisiert = Some 2\<rparr>],
      spiel_id_seq = 1001, name_id_seq = 1001, bild_id_seq = 1000,
      effects = [InsertSpiel 1000,
        Sendmail ''Neues Spiel 1000'' ''Das Spiel mit dem Name <strong>Alpha</strong> ist angelegt'',
        UpdateSpiel 1000]\<rparr>"
proof -
  have "update oneSpiel (Some 1000) (exampleUpdate ''5'') (quoted ''0'') =
      (case save oneSpiel (merge ((exampleSpiel ''1'')\<lparr>id_Spiel := Some 1000, version := Some 0,
          name := Some \<lparr>id_Name = Some 1000, name_Name = ''Alpha'', untertitel = None\<rparr>,
          bilder := None\<rparr>) (exampleUpdate ''5'')) of
              (Inl e, db1) \<Rightarrow> (Inl e, db1)
            | (Inr updated, db1) \<Rightarrow> (Inr (version updated), db1))"
    using update_outdated_or_saved [OF findById_oneSpiel _ _ digits_0, of "exampleUpdate ''5''"]
    by (simp add: decimalValue_0 lessThanVersion_def)
  then show ?thesis
    by (simp add: updatedOnce_def save_def merge_def orElse_def mergeName_def exampleUpdate_def
        exampleSpiel_def findRow_def oneSpiel_eq updateSpiel_def Let_def)
qed



section \<open>The version counter\<close>

lemma updatesOf_snoc:
  "updatesOf i (outs @ [out]) =
     updatesOf i outs + (case out of Updated idOpt v \<Rightarrow> if idOpt = Some i then 1 else 0 | _ \<Rightarrow> 0)"
  by (simp add: updatesOf_def split: outcome.splits)

lemma versionsCounted_initial: "versionsCounted [] init_database"
  by (simp add: versionsCounted_def init_database_def updatesOf_def)

lemma versionsCounted_same:
  assumes "versionsCounted outs db"
    and "spiel_id_seq db1 = spiel_id_seq db"
    and "\<And>s1. s1 \<in> set (spiel_table db1) \<Longrightarrow>
          \<exists>s \<in> set (spiel_table db). id_Spiel s1 = id_Spiel s \<and> version s1 = version s"
    and "\<And>i. updatesOf i (outs @ [out]) = updatesOf i outs"
  shows "versionsCounted (outs @ [out]) db1"
  unfolding versionsCounted_def
proof (intro conjI ballI allI impI)
  fix s1 assume "s1 \<in> set (spiel_table db1)"
  then obtain s where s: "s \<in> set (spiel_table db)" "id_Spiel s1 = id_Spiel s" "version s1 = version s"
    using assms(3) by blast
  then obtain i where "id_Spiel s = Some i" "i < spiel_id_seq db" "version s = Some (int (updatesOf i outs))"
    using assms(1) unfolding versionsCounted_def by blast
  then show "\<exists>i. id_Spiel s1 = Some i \<and> i < spiel_id_seq db1
      \<and> version s1 = Some (int (updatesOf i (outs @ [out])))"
    using s assms(2,4) by simp
next
  fix i assume "spiel_id_seq db1 \<le> i"
  then show "updatesOf i (outs @ [out]) = 0"
    using assms(1,2,4) unfolding versionsCounted_def by simp
qed

lemma versionsCounted_failed:
  "versionsCounted outs db \<Longrightarrow> versionsCounted (outs @ [Failed e]) db"
  by (rule versionsCounted_same) (auto simp: updatesOf_snoc)

lemma create_new:
  assumes "\<not> existsBy_barcode db (barcode spiel)" and "id_Spiel spiel = None"
  shows "\<exists>row db1. create db spiel = (Inr (Some (spiel_id_seq db)), db1)
     \<and> spiel_table db1 = spiel_table db @ [row]
     \<and> id_Spiel row = Some (spiel_id_seq db) \<and> version row = Some 0
     \<and> spiel_id_seq db1 = spiel_id_seq db + 1"
  using assms
  by (simp add: create_def validateCreate_def save_def insertSpiel_def Let_def sendmail_def)

lemma versionsCounted_create:
  assumes "versionsCounted outs db" and "id_Spiel spiel = None"
    and "step db (Create spiel) = (out, db1)"
  shows "versionsCounted (outs @ [out]) db1"
proof (cases "existsBy_barcode db (barcode spiel)")
  case True
  then have "out = Failed (BarcodeExistsException (barcode spiel))" "db1 = db"
    using assms(3) by (auto simp: step_def create_def validateCreate_def)
  then show ?thesis using assms(1) versionsCounted_failed by simp
next
  case False
  let ?i = "spiel_id_seq db"
  obtain row db2 where c: "create db spiel = (Inr (Some ?i), db2)"
    and row: "id_Spiel row = Some ?i" "version row = Some 0"
    and db2: "spiel_table db2 = spiel_table db @ [row]" "spiel_id_seq db2 = ?i + 1"
    using create_new [OF False assms(2)] by blast
  have out: "out = Created (Some ?i)" and "db1 = db2"
    using assms(3) c by (simp_all add: step_def)
  then have db1: "spiel_table db1 = spiel_table db @ [row]" "spiel_id_seq db1 = ?i + 1"
    using db2 by simp_all
  have u: "\<And>i. updatesOf i (outs @ [out]) = updatesOf i outs"
    using out by (simp add: updatesOf_snoc)
  have z: "updatesOf ?i outs = 0" using assms(1) unfolding versionsCounted_def by simp
  show ?thesis
    unfolding versionsCounted_def
  proof (intro conjI ballI allI impI)
    fix s assume "s \<in> set (spiel_table db1)"
    then consider "s \<in> set (spiel_table db)" | "s = row" using db1 by auto
    then show "\<exists>i. id_Spiel s = Some i \<and> i < spiel_id_seq db1
        \<and> version s = Some (int (updatesOf i (outs @ [out])))"
    proof cases
      case 1
      then obtain i where "id_Spiel s = Some i" "i < ?i" "version s = Some (int (updatesOf i outs))"
        using assms(1) unfolding versionsCounted_def by blast
      then show ?thesis using u db1 by simp
    next
      case 2
      then show ?thesis using row u z db1 by simp
    qed
  next
    fix i assume "spiel_id_seq db1 \<le> i"
    then show "updatesOf i (outs @ [out]) = 0"
      using assms(1) u db1 unfolding versionsCounted_def by simp
  qed
qed


lemma validateUpdate_Inr:
  "validateUpdate db spiel i v = Inr spielNeu \<Longrightarrow> findById db i False = Inr spielNeu"
  by (auto simp: validateUpdate_def Let_def split: if_splits sum.splits)

lemma update_result:
  assumes "update db (Some i) spiel v = (r, db1)" and "id_Spiel spiel = None"
  shows "(\<exists>e. r = Inl e \<and> db1 = db)
     \<or> (\<exists>row row1 n. findRow db i = Some row
           \<and> n = (case version row of None \<Rightarrow> 0 | Some k \<Rightarrow> k) + 1
           \<and> id_Spiel row1 = Some i \<and> version row1 = Some n
           \<and> r = Inr (Some n)
           \<and> spiel_id_seq db1 = spiel_id_seq db
           \<and> spiel_table db1 = map (\<lambda>s. if id_Spiel s = Some i then row1 else s) (spiel_table db))"
proof (cases "validateUpdate db spiel i v")
  case (Inl e)
  then have "r = Inl e" "db1 = db" using assms(1) by (auto simp: update_def)
  then show ?thesis by blast
next
  case (Inr spielNeu)
  then have f: "findById db i False = Inr spielNeu" by (rule validateUpdate_Inr)
  then obtain row where row: "findRow db i = Some row"
    and sn: "spielNeu = nullToEmpty (row\<lparr>bilder := None\<rparr>)"
    by (auto simp: findById_findRow split: option.splits if_splits)
  have "id_Spiel spielNeu = Some i"
    using sn findRow_id [OF row] by (simp add: nullToEmpty_def)
  then have idm: "id_Spiel (merge spielNeu spiel) = Some i"
    using assms(2) by (simp add: merge_def orElse_def)
  have sv: "save db (merge spielNeu spiel) = updateSpiel db i row (merge spielNeu spiel)"
    using idm row by (simp add: save_def)
  show ?thesis
  proof (cases "list_ex (\<lambda>s. barcode s = barcode (merge spielNeu spiel) \<and> id_Spiel s \<noteq> Some i)
      (spiel_table db)")
    case True
    then have "r = Inl (QueryFailedError ''barcode UNIQUE'')" "db1 = db"
      using assms(1) Inr sv by (auto simp: update_def updateSpiel_def)
    then show ?thesis by blast
  next
    case False
    let ?n = "(case version row of None \<Rightarrow> 0 | Some k \<Rightarrow> k) + 1"
    let ?row1 = "(merge spielNeu spiel)\<lparr>version := Some ?n\<rparr>\<lparr>name := name row, bilder := bilder row\<rparr>"
    have "r = Inr (Some ?n)"
      and "db1 = db\<lparr>spiel_table := map (\<lambda>s. if id_Spiel s = Some i then ?row1 else s) (spiel_table db),
          effects := effects db @ [UpdateSpiel i]\<rparr>"
      using assms(1) Inr sv False by (simp_all add: update_def updateSpiel_def Let_def)
    moreover have "id_Spiel ?row1 = Some i" "version ?row1 = Some ?n" using idm by simp_all
    ultimately show ?thesis using row by (intro disjI2 exI [of _ row] exI [of _ ?row1] exI [of _ ?n]) simp
  qed
qed

lemma versionsCounted_update:
  assumes "versionsCounted outs db" and "id_Spiel spiel = None"
    and "step db (Update idOpt spiel v) = (out, db1)"
  shows "versionsCounted (outs @ [out]) db1"
proof (cases idOpt)
  case None
  then have "out = Failed (NotFoundException (KeinSpielMitId None))" "db1 = db"
    using assms(3) by (auto simp: step_def update_def)
  then show ?thesis using assms(1) versionsCounted_failed by simp
next
  case (Some i)
  obtain r db2 where u: "update db (Some i) spiel v = (r, db2)" by (cases "update db (Some i) spiel v")
  from update_result [OF u assms(2)] show ?thesis
  proof (elim disjE exE conjE)
    fix e assume "r = Inl e" "db2 = db"
    then have "out = Failed e" "db1 = db" using assms(3) u Some by (simp_all add: step_def)
    then show ?thesis using assms(1) versionsCounted_failed by simp
  next
    fix row row1 n
    assume row: "findRow db i = Some row"
      and n: "n = (case version row of None \<Rightarrow> 0 | Some k \<Rightarrow> k) + 1"
      and row1: "id_Spiel row1 = Some i" "version row1 = Some n"
      and r: "r = Inr (Some n)"
      and seq: "spiel_id_seq db2 = spiel_id_seq db"
      and tab: "spiel_table db2 = map (\<lambda>s. if id_Spiel s = Some i then row1 else s) (spiel_table db)"
    have out: "out = Updated (Some i) (Some n)" and db1: "db1 = db2"
      using assms(3) u Some r by (simp_all add: step_def)
    have "row \<in> set (spiel_table db)" "id_Spiel row = Some i"
      using findRow_mem [OF row] findRow_id [OF row] by simp_all
    then have i: "i < spiel_id_seq db" and vr: "version row = Some (int (updatesOf i outs))"
      using assms(1) unfolding versionsCounted_def by auto
    have ui: "updatesOf i (outs @ [out]) = updatesOf i outs + 1"
      using out by (simp add: updatesOf_snoc)
    have uj: "\<And>j. j \<noteq> i \<Longrightarrow> updatesOf j (outs @ [out]) = updatesOf j outs"
      using out by (simp add: updatesOf_snoc)
    show ?thesis
      unfolding versionsCounted_def
    proof (intro conjI ballI allI impI)
      fix s1 assume "s1 \<in> set (spiel_table db1)"
      then obtain s where s: "s \<in> set (spiel_table db)"
        and s1: "s1 = (if id_Spiel s = Some i then row1 else s)"
        using tab db1 by auto
      obtain j where j: "id_Spiel s = Some j" "j < spiel_id_seq db"
          "version s = Some (int (updatesOf j outs))"
        using assms(1) s unfolding versionsCounted_def by blast
      show "\<exists>k. id_Spiel s1 = Some k \<and> k < spiel_id_seq db1
          \<and> version s1 = Some (int (updatesOf k (outs @ [out])))"
      proof (cases "j = i")
        case True
        then show ?thesis using s1 j row1 n vr ui i seq db1 by simp
      next
        case False
        then show ?thesis using s1 j uj seq db1 by simp
      qed
    next
      fix j assume "spiel_id_seq db1 \<le> j"
      then have "j \<noteq> i" "spiel_id_seq db \<le> j" using i seq db1 by simp_all
      then show "updatesOf j (outs @ [out]) = 0"
        using uj assms(1) unfolding versionsCounted_def by simp
    qed
  qed
qed


lemma deleteName_keeps:
  "spiel_id_seq (deleteName db n) = spiel_id_seq db"
  "map (\<lambda>s. (id_Spiel s, version s)) (spiel_table (deleteName db n))
   = map (\<lambda>s. (id_Spiel s, version s)) (spiel_table db)"
  by (simp_all add: deleteName_def comp_def split: option.splits)

lemma deleteBild_keeps:
  "spiel_id_seq (deleteBild db b) = spiel_id_seq db"
  "map (\<lambda>s. (id_Spiel s, version s)) (spiel_table (deleteBild db b))
   = map (\<lambda>s. (id_Spiel s, version s)) (spiel_table db)"
  by (simp_all add: deleteBild_def comp_def)

lemma deleteBilder_keeps:
  "spiel_id_seq (foldl (\<lambda>d bild. deleteBild d (id_Bild bild)) db bs) = spiel_id_seq db
   \<and> map (\<lambda>s. (id_Spiel s, version s))
        (spiel_table (foldl (\<lambda>d bild. deleteBild d (id_Bild bild)) db bs))
     = map (\<lambda>s. (id_Spiel s, version s)) (spiel_table db)"
  by (induction bs arbitrary: db) (simp_all add: deleteBild_keeps)

lemma delete_keeps:
  assumes "delete db i = (r, db1)"
  shows "spiel_id_seq db1 = spiel_id_seq db
     \<and> set (map (\<lambda>s. (id_Spiel s, version s)) (spiel_table db1))
        \<subseteq> set (map (\<lambda>s. (id_Spiel s, version s)) (spiel_table db))"
proof (cases "findById db i True")
  case (Inl e)
  then show ?thesis using assms by (auto simp: delete_def)
next
  case (Inr spiel)
  let ?db1 = "case (case name spiel of None \<Rightarrow> None | Some n \<Rightarrow> id_Name n) of
      None \<Rightarrow> db | Some n \<Rightarrow> deleteName db n"
  let ?db2 = "foldl (\<lambda>d bild. deleteBild d (id_Bild bild)) ?db1
      (case bilder spiel of None \<Rightarrow> [] | Some bs \<Rightarrow> bs)"
  have k1: "spiel_id_seq ?db1 = spiel_id_seq db
     \<and> map (\<lambda>s. (id_Spiel s, version s)) (spiel_table ?db1)
       = map (\<lambda>s. (id_Spiel s, version s)) (spiel_table db)"
    by (simp add: deleteName_keeps split: option.splits)
  have k2: "spiel_id_seq ?db2 = spiel_id_seq db
     \<and> map (\<lambda>s. (id_Spiel s, version s)) (spiel_table ?db2)
       = map (\<lambda>s. (id_Spiel s, version s)) (spiel_table db)"
    using k1 deleteBilder_keeps [of ?db1] by simp
  have "db1 = snd (deleteSpielRow ?db2 i)"
    using assms Inr by (simp add: delete_def Let_def)
  then have q: "spiel_id_seq db1 = spiel_id_seq ?db2"
    and sub: "set (spiel_table db1) \<subseteq> set (spiel_table ?db2)"
    by (auto simp: deleteSpielRow_def)
  have "set (map (\<lambda>s. (id_Spiel s, version s)) (spiel_table db1))
        \<subseteq> set (map (\<lambda>s. (id_Spiel s, version s)) (spiel_table ?db2))"
    using sub by (simp only: set_map image_mono)
  also have "\<dots> = set (map (\<lambda>s. (id_Spiel s, version s)) (spiel_table db))"
    using k2 by (simp only:)
  finally show ?thesis using q k2 by simp
qed

lemma versionsCounted_delete:
  assumes "versionsCounted outs db" and "step db (Delete i) = (out, db1)"
  shows "versionsCounted (outs @ [out]) db1"
proof -
  obtain r where d: "delete db i = (r, db1)" and out: "out = (case r of Inl e \<Rightarrow> Failed e | Inr b \<Rightarrow> Deleted b)"
    using assms(2) by (cases "delete db i") (auto simp: step_def split: sum.splits)
  have k: "spiel_id_seq db1 = spiel_id_seq db"
    "set (map (\<lambda>s. (id_Spiel s, version s)) (spiel_table db1))
        \<subseteq> set (map (\<lambda>s. (id_Spiel s, version s)) (spiel_table db))"
    using delete_keeps [OF d] by simp_all
  show ?thesis
  proof (rule versionsCounted_same [OF assms(1) k(1)])
    fix s1 assume "s1 \<in> set (spiel_table db1)"
    then have "(id_Spiel s1, version s1) \<in> set (map (\<lambda>s. (id_Spiel s, version s)) (spiel_table db))"
      using k(2) by auto
    then show "\<exists>s \<in> set (spiel_table db). id_Spiel s1 = id_Spiel s \<and> version s1 = version s"
      by auto
  next
    fix j show "updatesOf j (outs @ [out]) = updatesOf j outs"
      using out by (simp add: updatesOf_snoc split: sum.splits)
  qed
qed

lemma reachable_versionsCounted: "reachable outs db \<Longrightarrow> versionsCounted outs db"
proof (induction rule: reachable.induct)
  case initial
  then show ?case by (rule versionsCounted_initial)
next
  case (next_step outs db op out db1)
  show ?case
  proof (cases op)
    case (Create spiel)
    then show ?thesis
      using next_step versionsCounted_create [of outs db spiel out db1] by (simp add: withoutId_def)
  next
    case (Update idOpt spiel v)
    then show ?thesis
      using next_step versionsCounted_update [of outs db spiel idOpt v out db1]
      by (simp add: withoutId_def)
  next
    case (Delete i)
    then show ?thesis using next_step versionsCounted_delete [of outs db i out db1] by simp
  qed
qed

text \<open>
  Claim C7. In every database reached from the empty tables by create, update and
  delete, the version of each stored item is the number of updates of that item that
  succeeded so far: zero after its creation, one more after each successful update,
  and untouched by every other operation (a create, a failed update, an update or a
  delete of another item). The entities of the operations are as the controllers
  build them: without id and version.
\<close>

theorem version_counts_updates:
  assumes "reachable outs db" and "s \<in> set (spiel_table db)"
  shows "\<exists>i. id_Spiel s = Some i \<and> version s = Some (int (updatesOf i outs))"
  using reachable_versionsCounted [OF assms(1)] assms(2) unfolding versionsCounted_def by blast


lemma step_create_example:
  "step init_database (Create (exampleSpiel ''1'')) = (Created (Some 1000), oneSpiel)"
proof -
  have "fst (create init_database (exampleSpiel ''1'')) = Inr (Some 1000)"
    by (simp add: create_def validateCreate_def existsBy_barcode_def init_database_def
        save_def insertSpiel_def Let_def exampleSpiel_def)
  then show ?thesis
    by (cases "create init_database (exampleSpiel ''1'')") (simp add: step_def oneSpiel_def)
qed

lemma update_example_result:
  "fst (update oneSpiel (Some 1000) (exampleUpdate ''5'') (quoted ''0'')) = Inr (Some 1)"
proof -
  have "update oneSpiel (Some 1000) (exampleUpdate ''5'') (quoted ''0'') =
      (case save oneSpiel (merge ((exampleSpiel ''1'')\<lparr>id_Spiel := Some 1000, version := Some 0,
          name := Some \<lparr>id_Name = Some 1000, name_Name = ''Alpha'', untertitel = None\<rparr>,
          bilder := None\<rparr>) (exampleUpdate ''5'')) of
              (Inl e, db1) \<Rightarrow> (Inl e, db1)
            | (Inr updated, db1) \<Rightarrow> (Inr (version updated), db1))"
    using update_outdated_or_saved [OF findById_oneSpiel _ _ digits_0, of "exampleUpdate ''5''"]
    by (simp add: decimalValue_0 lessThanVersion_def)
  then show ?thesis
    by (simp add: save_def merge_def orElse_def mergeName_def exampleUpdate_def
        exampleSpiel_def findRow_def oneSpiel_eq updateSpiel_def Let_def)
qed

lemma step_update_example:
  "step oneSpiel (Update (Some 1000) (exampleUpdate ''5'') (quoted ''0''))
   = (Updated (Some 1000) (Some 1), updatedOnce)"
  using update_example_result
  by (cases "update oneSpiel (Some 1000) (exampleUpdate ''5'') (quoted ''0'')")
    (simp add: step_def updatedOnce_def)

lemma findById_updatedOnce:
  "findById updatedOnce 1000 False =
     Inr \<lparr>id_Spiel = Some 1000, version = Some 1, barcode = ''5'', rating = Some 5,
          art = Some BRETTSPIEL, preis = 20, rabatt = Some 0, lieferbar = Some True, datum = None,
          homepage = None, schlagwoerter = Value [''JAVA'', ''JAVASCRIPT''],
          name = Some \<lparr>id_Name = Some 1000, name_Name = ''Alpha'', untertitel = None\<rparr>,
          bilder = None, erzeugt = Some 1, aktualisiert = Some 2\<rparr>"
  by (simp add: findById_findRow findRow_def updatedOnce_eq nullToEmpty_def)

lemma step_outdated_example:
  "step updatedOnce (Update (Some 1000) (exampleUpdate ''6'') (quoted ''0''))
   = (Failed (VersionOutdatedException (Num 0)), updatedOnce)"
  using update_outdated_or_saved [OF findById_updatedOnce _ _ digits_0, of "exampleUpdate ''6''"]
  by (simp add: step_def decimalValue_0 lessThanVersion_def)

theorem version_counts_updates_witness:
  "reachable [Created (Some 1000)] oneSpiel
   \<and> map version (spiel_table oneSpiel) = [Some 0]
   \<and> reachable [Created (Some 1000), Updated (Some 1000) (Some 1),
        Failed (VersionOutdatedException (Num 0))] updatedOnce
   \<and> map id_Spiel (spiel_table updatedOnce) = [Some 1000]
   \<and> map version (spiel_table updatedOnce) = [Some 1]
   \<and> updatesOf 1000 [Created (Some 1000), Updated (Some 1000) (Some 1),
        Failed (VersionOutdatedException (Num 0))] = 1"
proof -
  have w1: "withoutId (Create (exampleSpiel ''1''))"
    by (simp add: withoutId_def exampleSpiel_def)
  have w2: "\<And>c v. withoutId (Update (Some 1000) (exampleUpdate c) v)"
    by (simp add: withoutId_def exampleUpdate_def)
  have r1: "reachable ([] @ [Created (Some 1000)]) oneSpiel"
    using reachable.initial w1 step_create_example by (rule reachable.next_step)
  have r2: "reachable (([] @ [Created (Some 1000)]) @ [Updated (Some 1000) (Some 1)]) updatedOnce"
    using r1 w2 step_update_example by (rule reachable.next_step)
  have r3: "reachable ((([] @ [Created (Some 1000)]) @ [Updated (Some 1000) (Some 1)])
      @ [Failed (VersionOutdatedException (Num 0))]) updatedOnce"
    using r2 w2 step_outdated_example by (rule reachable.next_step)
  have m1: "hd (spiel_table oneSpiel) \<in> set (spiel_table oneSpiel)"
    by (simp add: oneSpiel_eq)
  have m3: "hd (spiel_table updatedOnce) \<in> set (spiel_table updatedOnce)"
    by (simp add: updatedOnce_eq)
  show ?thesis
    using version_counts_updates [OF r1 m1] version_counts_updates [OF r3 m3] r1 r3
    by (simp add: oneSpiel_eq updatedOnce_eq exampleSpiel_def updatesOf_def)
qed

end
